theory Spec2Isabelle
  imports Complex_Main "HOL-Library.Word"
begin

unbundle bit_operations_syntax

section \<open>Gradient canonicalization, analytic segments and lookup table of SkGradientShader.cpp\<close>

text \<open>
  The embedding follows \<^verbatim>\<open>src/shaders/gradients/SkGradientShader.cpp\<close>.
  \<^verbatim>\<open>SkScalar\<close> and \<^verbatim>\<open>float\<close> are modelled as \<^typ>\<open>real\<close>: arithmetic is exact, and
  there is no NaN, no infinity and no rounding. Every statement below is a statement about
  this idealisation of the floating-point code. Arrays reached through a pointer are lists
  that start at the pointer; the element count travels separately, as in the source. The
  debug assertions (\<^verbatim>\<open>SkASSERT\<close>) are left out: a release build does not have them.
\<close>

subsection \<open>Data\<close>

type_synonym SkScalar = real

record SkColor4f =
  fR :: real
  fG :: real
  fB :: real
  fA :: real

datatype TileMode = kClamp_TileMode | kRepeat_TileMode | kMirror_TileMode | kDecal_TileMode

text \<open>
  \<^verbatim>\<open>SkGradientShaderBase::Descriptor\<close>. The colour space and the local matrix are left out:
  no function modelled here reads them. A null \<^verbatim>\<open>fPos\<close> is \<^term>\<open>None\<close>.
\<close>

record Descriptor =
  fColors :: "SkColor4f list"
  fPos :: "SkScalar list option"
  fCount :: nat
  fTileMode :: TileMode
  fGradFlags :: "32 word"

text \<open>
  The fields of \<^verbatim>\<open>SkGradientShaderBase\<close> that the constructor computes. The source calls
  the last two \<^verbatim>\<open>fTileMode\<close> and \<^verbatim>\<open>fGradFlags\<close>, as it calls the descriptor's.
\<close>

record GradientShaderBase =
  fColorCount :: nat
  fOrigColors4f :: "SkColor4f list"
  fOrigPos :: "SkScalar list option"
  fColorsAreOpaque :: bool
  fShaderTileMode :: TileMode
  fShaderGradFlags :: "8 word"

subsection \<open>Scalar helpers declared outside the file\<close>

text \<open>
  Modelled from the spec: \<^verbatim>\<open>SkScalarPin\<close> is declared in a header outside
  \<^verbatim>\<open>SkGradientShader.cpp\<close>. The spec describes the call \<^verbatim>\<open>SkScalarPin(x, prev, 1)\<close> as the value
  "pinned to be no smaller than the previous emitted position and no larger than 1".
\<close>

definition SkScalarPin :: "SkScalar \<Rightarrow> SkScalar \<Rightarrow> SkScalar \<Rightarrow> SkScalar" where
  "SkScalarPin x lo hi = max lo (min x hi)"

text \<open>
  Modelled from the spec: \<^verbatim>\<open>SkScalarNearlyEqual\<close> is declared in a header outside
  \<^verbatim>\<open>SkGradientShader.cpp\<close>. The spec calls it equality "within floating tolerance"; the
  tolerance itself is not given there, so it is the parameter \<open>tol\<close> of every function that
  compares scalars. The difference is taken exactly here, where the float code rounds it:
  for differences that lie within a rounding error of the tolerance the two can disagree.
\<close>

definition SkScalarNearlyEqual :: "SkScalar \<Rightarrow> SkScalar \<Rightarrow> SkScalar \<Rightarrow> bool" where
  "SkScalarNearlyEqual tol x y = (\<bar>x - y\<bar> \<le> tol)"

subsection \<open>The constructor \<^verbatim>\<open>SkGradientShaderBase::SkGradientShaderBase\<close>\<close>

text \<open>
  The loop of lines 191 to 197, over the indices it visits. \<open>n\<close> is \<^verbatim>\<open>desc.fCount\<close>. It
  returns the positions written after the leading 0 and the final \<^verbatim>\<open>uniformStops\<close>.
\<close>

primrec pin_loop ::
  "SkScalar \<Rightarrow> SkScalar \<Rightarrow> SkScalar list \<Rightarrow> nat \<Rightarrow> nat list \<Rightarrow> SkScalar \<Rightarrow> bool
     \<Rightarrow> SkScalar list \<times> bool" where
  "pin_loop tol uniformStep pos n [] prev uniformStops = ([], uniformStops)"
| "pin_loop tol uniformStep pos n (i # is) prev uniformStops =
     (let curr = (if i = n then 1 else SkScalarPin (pos ! i) prev 1);
          u = (uniformStops \<and> SkScalarNearlyEqual tol uniformStep (curr - prev));
          r = pin_loop tol uniformStep pos n is curr u
      in (curr # fst r, snd r))"

definition dummyFirst :: "Descriptor \<Rightarrow> bool" where
  "dummyFirst desc = (case fPos desc of None \<Rightarrow> False | Some pos \<Rightarrow> pos ! 0 \<noteq> 0)"

definition dummyLast :: "Descriptor \<Rightarrow> bool" where
  "dummyLast desc =
     (case fPos desc of None \<Rightarrow> False | Some pos \<Rightarrow> pos ! (fCount desc - 1) \<noteq> 1)"

text \<open>
  Lines 181 to 197: the position array as it is written into the storage, together with
  \<^verbatim>\<open>uniformStops\<close>, before line 200 decides whether to keep the array.
\<close>

definition pinned_positions :: "SkScalar \<Rightarrow> Descriptor \<Rightarrow> SkScalar list \<Rightarrow> SkScalar list \<times> bool" where
  "pinned_positions tol desc pos =
     (let prev = 0;
          startIndex = (if dummyFirst desc then 0 else 1);
          count = fCount desc + (if dummyLast desc then 1 else 0);
          uniformStep = pos ! startIndex - prev;
          r = pin_loop tol uniformStep pos (fCount desc) [startIndex..<count] prev True
      in (prev # fst r, snd r))"

definition SkGradientShaderBase_ctor :: "SkScalar \<Rightarrow> Descriptor \<Rightarrow> GradientShaderBase" where
  "SkGradientShaderBase_ctor tol desc =
     \<lparr> fColorCount = fCount desc + (if dummyFirst desc then 1 else 0)
                                 + (if dummyLast desc then 1 else 0),
       fOrigColors4f =
         (if dummyFirst desc then [fColors desc ! 0] else [])
         @ map (\<lambda>i. fColors desc ! i) [0..<fCount desc]
         @ (if dummyLast desc then [fColors desc ! (fCount desc - 1)] else []),
       fOrigPos =
         (case fPos desc of
            None \<Rightarrow> None
          | Some pos \<Rightarrow>
              (let r = pinned_positions tol desc pos
               in if snd r then None else Some (fst r))),
       fColorsAreOpaque =
         foldl (\<lambda>opaque i. opaque \<and> fA (fColors desc ! i) = 1) True [0..<fCount desc],
       fShaderTileMode = fTileMode desc,
       fShaderGradFlags = ucast (fGradFlags desc) \<rparr>"

definition isOpaque :: "GradientShaderBase \<Rightarrow> bool" where
  "isOpaque g = (fColorsAreOpaque g \<and> fShaderTileMode g \<noteq> kDecal_TileMode)"

subsection \<open>The factory's three-stop optimizer \<^verbatim>\<open>ColorStopOptimizer\<close>\<close>

text \<open>
  The struct has the members \<^verbatim>\<open>fColors\<close>, \<^verbatim>\<open>fPos\<close> and \<^verbatim>\<open>fCount\<close>; the model returns
  them as a triple in this order. Advancing a pointer by one element is \<^term>\<open>drop 1\<close>
  on the list that starts at the pointer.
\<close>

definition ColorStopOptimizer ::
  "SkScalar \<Rightarrow> SkColor4f list \<Rightarrow> SkScalar list option \<Rightarrow> nat \<Rightarrow> TileMode
     \<Rightarrow> SkColor4f list \<times> SkScalar list option \<times> nat" where
  "ColorStopOptimizer tol colors pos count mode =
     (case pos of
        None \<Rightarrow> (colors, pos, count)
      | Some p \<Rightarrow>
          if count \<noteq> 3 then (colors, pos, count)
          else if SkScalarNearlyEqual tol (p ! 0) 0 \<and>
                  SkScalarNearlyEqual tol (p ! 1) 0 \<and>
                  SkScalarNearlyEqual tol (p ! 2) 1 then
            (if mode = kRepeat_TileMode \<or> mode = kMirror_TileMode \<or> colors ! 0 = colors ! 1
             then (drop 1 colors, Some (drop 1 p), 2)
             else (colors, pos, count))
          else if SkScalarNearlyEqual tol (p ! 0) 0 \<and>
                  SkScalarNearlyEqual tol (p ! 1) 1 \<and>
                  SkScalarNearlyEqual tol (p ! 2) 1 then
            (if mode = kRepeat_TileMode \<or> mode = kMirror_TileMode \<or> colors ! 1 = colors ! 2
             then (colors, pos, 2)
             else (colors, pos, count))
          else (colors, pos, count))"

subsection \<open>Four-channel values\<close>

text \<open>
  \<^verbatim>\<open>Sk4f\<close> is a vector of four floats and \<^verbatim>\<open>SkPM4f\<close> a struct of four floats in the order
  R, G, B, A; \<^verbatim>\<open>SkPM4f::From4f\<close> and \<^verbatim>\<open>to4f\<close> convert between them without changing a
  value. Both are the one type below. The operators of \<^verbatim>\<open>Sk4f\<close> work channel by channel.
\<close>

datatype Sk4f = Sk4f (chR: real) (chG: real) (chB: real) (chA: real)

type_synonym SkPM4f = Sk4f

fun Sk4f_add :: "Sk4f \<Rightarrow> Sk4f \<Rightarrow> Sk4f" where
  "Sk4f_add (Sk4f x0 x1 x2 x3) (Sk4f y0 y1 y2 y3) = Sk4f (x0 + y0) (x1 + y1) (x2 + y2) (x3 + y3)"

fun Sk4f_sub :: "Sk4f \<Rightarrow> Sk4f \<Rightarrow> Sk4f" where
  "Sk4f_sub (Sk4f x0 x1 x2 x3) (Sk4f y0 y1 y2 y3) = Sk4f (x0 - y0) (x1 - y1) (x2 - y2) (x3 - y3)"

fun Sk4f_mul :: "Sk4f \<Rightarrow> Sk4f \<Rightarrow> Sk4f" where
  "Sk4f_mul (Sk4f x0 x1 x2 x3) (Sk4f y0 y1 y2 y3) = Sk4f (x0 * y0) (x1 * y1) (x2 * y2) (x3 * y3)"

text \<open>\<^verbatim>\<open>Sk4f(x)\<close>: the same value in the four channels.\<close>

definition Sk4f_splat :: "real \<Rightarrow> Sk4f" where
  "Sk4f_splat x = Sk4f x x x x"

text \<open>\<^verbatim>\<open>Sk4f::Load(c.vec())\<close>: the four floats of a colour, unchanged.\<close>

definition Load :: "SkColor4f \<Rightarrow> Sk4f" where
  "Load c = Sk4f (fR c) (fG c) (fB c) (fA c)"

text \<open>
  Modelled from the spec: \<^verbatim>\<open>SkColor4f::premul\<close> is declared in a header outside
  \<^verbatim>\<open>SkGradientShader.cpp\<close>. The glossary defines a premultiplied colour as one "whose R/G/B
  channels are pre-scaled by alpha"; \<^verbatim>\<open>initLinearBitmap\<close> writes the same product out as
  \<^verbatim>\<open>c * Sk4f(c[3], c[3], c[3], 1.0f)\<close>.
\<close>

definition premul :: "SkColor4f \<Rightarrow> SkPM4f" where
  "premul c = Sk4f (fR c * fA c) (fG c * fA c) (fB c * fA c) (fA c)"

subsection \<open>The analytic stops of \<^verbatim>\<open>onAppendStages\<close>\<close>

text \<open>
  \<^verbatim>\<open>SkJumper_GradientCtx\<close>: the arrays \<^verbatim>\<open>fs[0..3]\<close>, \<^verbatim>\<open>bs[0..3]\<close> and \<^verbatim>\<open>ts\<close> are maps from
  the stop index to what was written there; the four channel arrays of \<^verbatim>\<open>fs\<close> (of \<^verbatim>\<open>bs\<close>)
  are read together as one four-channel value per stop. An index never written is
  \<^term>\<open>None\<close>.
\<close>

record SkJumper_GradientCtx =
  stopCount :: nat
  fs :: "nat \<rightharpoonup> SkPM4f"
  bs :: "nat \<rightharpoonup> SkPM4f"
  ts :: "nat \<rightharpoonup> real"

definition new_ctx :: SkJumper_GradientCtx where
  "new_ctx = \<lparr> stopCount = 0, fs = Map.empty, bs = Map.empty, ts = Map.empty \<rparr>"

definition add_stop_color :: "SkJumper_GradientCtx \<Rightarrow> nat \<Rightarrow> SkPM4f \<Rightarrow> SkPM4f \<Rightarrow> SkJumper_GradientCtx" where
  "add_stop_color ctx stop Fs Bs = ctx\<lparr> fs := (fs ctx)(stop \<mapsto> Fs), bs := (bs ctx)(stop \<mapsto> Bs) \<rparr>"

definition add_const_color :: "SkJumper_GradientCtx \<Rightarrow> nat \<Rightarrow> SkPM4f \<Rightarrow> SkJumper_GradientCtx" where
  "add_const_color ctx stop color = add_stop_color ctx stop (Sk4f 0 0 0 0) color"

definition init_stop_evenly ::
  "SkJumper_GradientCtx \<Rightarrow> real \<Rightarrow> nat \<Rightarrow> SkPM4f \<Rightarrow> SkPM4f \<Rightarrow> SkJumper_GradientCtx" where
  "init_stop_evenly ctx gapCount stop c_l c_r =
     (let Fs = Sk4f ((chR c_r - chR c_l) * gapCount)
                    ((chG c_r - chG c_l) * gapCount)
                    ((chB c_r - chB c_l) * gapCount)
                    ((chA c_r - chA c_l) * gapCount);
          Bs = Sk4f (chR c_l - chR Fs * (real stop / gapCount))
                    (chG c_l - chG Fs * (real stop / gapCount))
                    (chB c_l - chB Fs * (real stop / gapCount))
                    (chA c_l - chA Fs * (real stop / gapCount))
      in add_stop_color ctx stop Fs Bs)"

text \<open>
  \<^verbatim>\<open>init_stop_pos\<close> divides by \<^verbatim>\<open>t_r - t_l\<close> without a check of its own. A float division
  by zero gives an infinity or a NaN coefficient; the model makes it the error value
  \<open>ZeroWidthSegment\<close>, so that a caller that reaches it shows.
\<close>

datatype error = ZeroWidthSegment

definition init_stop_pos ::
  "SkJumper_GradientCtx \<Rightarrow> nat \<Rightarrow> real \<Rightarrow> real \<Rightarrow> SkPM4f \<Rightarrow> SkPM4f
     \<Rightarrow> error + SkJumper_GradientCtx" where
  "init_stop_pos ctx stop t_l t_r c_l c_r =
     (if t_r - t_l = 0 then Inl ZeroWidthSegment
      else
        (let Fs = Sk4f ((chR c_r - chR c_l) / (t_r - t_l))
                       ((chG c_r - chG c_l) / (t_r - t_l))
                       ((chB c_r - chB c_l) / (t_r - t_l))
                       ((chA c_r - chA c_l) / (t_r - t_l));
             Bs = Sk4f (chR c_l - chR Fs * t_l)
                       (chG c_l - chG Fs * t_l)
                       (chB c_l - chB Fs * t_l)
                       (chA c_l - chA Fs * t_l)
         in Inr (add_stop_color (ctx\<lparr> ts := (ts ctx)(stop \<mapsto> t_l) \<rparr>) stop Fs Bs)))"

text \<open>
  The lambda \<^verbatim>\<open>prepareColor\<close>. \<open>xformedColors\<close> is the array that \<^verbatim>\<open>SkColor4fXformer\<close>
  hands back (the colour-space conversion itself is outside this model).
\<close>

definition prepareColor :: "bool \<Rightarrow> SkColor4f list \<Rightarrow> nat \<Rightarrow> SkPM4f" where
  "prepareColor premulGrad xformedColors i =
     (let c = xformedColors ! i in if premulGrad then premul c else Load c)"

text \<open>
  Lines 351 to 362, the evenly distributed stops. The loop state is the context and
  \<^verbatim>\<open>c_l\<close>. The local \<^verbatim>\<open>stopCount\<close> is called \<open>stops\<close> here and below, since
  \<open>stopCount\<close> is the field of the context.
\<close>

definition evenly_step ::
  "bool \<Rightarrow> SkColor4f list \<Rightarrow> real \<Rightarrow> SkJumper_GradientCtx \<times> SkPM4f \<Rightarrow> nat
     \<Rightarrow> SkJumper_GradientCtx \<times> SkPM4f" where
  "evenly_step premulGrad xformedColors gapCount s i =
     (let c_l = snd s;
          c_r = prepareColor premulGrad xformedColors (i + 1)
      in (init_stop_evenly (fst s) gapCount i c_l c_r, c_r))"

definition evenly_spaced_stops ::
  "bool \<Rightarrow> SkColor4f list \<Rightarrow> nat \<Rightarrow> SkJumper_GradientCtx \<Rightarrow> SkJumper_GradientCtx" where
  "evenly_spaced_stops premulGrad xformedColors colorCount ctx =
     (let stops = colorCount;
          gapCount = real (stops - 1);
          c_l = prepareColor premulGrad xformedColors 0;
          s = foldl (evenly_step premulGrad xformedColors gapCount) (ctx, c_l) [0..<stops - 1];
          ctx' = add_const_color (fst s) (stops - 1) (snd s)
      in ctx'\<lparr> stopCount := stops \<rparr>)"

text \<open>
  Lines 367 to 402, the arbitrary stops. The loop state is the context, the local
  \<^verbatim>\<open>stopCount\<close>, \<^verbatim>\<open>t_l\<close> and \<^verbatim>\<open>c_l\<close>; an error of \<^verbatim>\<open>init_stop_pos\<close> ends the loop.
\<close>

primrec pos_loop ::
  "bool \<Rightarrow> SkColor4f list \<Rightarrow> SkScalar list \<Rightarrow> nat list
     \<Rightarrow> SkJumper_GradientCtx \<times> nat \<times> real \<times> SkPM4f
     \<Rightarrow> error + (SkJumper_GradientCtx \<times> nat \<times> real \<times> SkPM4f)" where
  "pos_loop premulGrad xformedColors origPos [] s = Inr s"
| "pos_loop premulGrad xformedColors origPos (i # is) s =
     (case s of (ctx, stops, t_l, c_l) \<Rightarrow>
        (let t_r = origPos ! (i + 1);
             c_r = prepareColor premulGrad xformedColors (i + 1)
         in if t_l < t_r then
              (case init_stop_pos ctx stops t_l t_r c_l c_r of
                 Inl e \<Rightarrow> Inl e
               | Inr ctx' \<Rightarrow>
                   pos_loop premulGrad xformedColors origPos is (ctx', stops + 1, t_r, c_r))
            else pos_loop premulGrad xformedColors origPos is (ctx, stops, t_r, c_r)))"

definition firstStop :: "GradientShaderBase \<Rightarrow> nat" where
  "firstStop g =
     (if fColorCount g > 2
      then (if fOrigColors4f g ! 0 \<noteq> fOrigColors4f g ! 1 then 0 else 1)
      else 0)"

definition lastStop :: "GradientShaderBase \<Rightarrow> nat" where
  "lastStop g =
     (if fColorCount g > 2
      then (if fOrigColors4f g ! (fColorCount g - 2) \<noteq> fOrigColors4f g ! (fColorCount g - 1)
            then fColorCount g - 1 else fColorCount g - 2)
      else 1)"

definition arbitrary_stops ::
  "bool \<Rightarrow> SkColor4f list \<Rightarrow> GradientShaderBase \<Rightarrow> SkScalar list \<Rightarrow> SkJumper_GradientCtx
     \<Rightarrow> error + SkJumper_GradientCtx" where
  "arbitrary_stops premulGrad xformedColors g origPos ctx =
     (let t_l = origPos ! firstStop g;
          c_l = prepareColor premulGrad xformedColors (firstStop g);
          ctx0 = add_const_color ctx 0 c_l
      in case pos_loop premulGrad xformedColors origPos [firstStop g..<lastStop g]
                (ctx0, 1, t_l, c_l) of
           Inl e \<Rightarrow> Inl e
         | Inr (ctx1, stops, t_l', c_l') \<Rightarrow>
             Inr ((add_const_color (ctx1\<lparr> ts := (ts ctx1)(stops \<mapsto> t_l') \<rparr>) stops c_l')
                    \<lparr> stopCount := stops + 1 \<rparr>))"

text \<open>
  The gradient stage that \<^verbatim>\<open>onAppendStages\<close> appends, with its context (lines 315 to 405).
  The matrix, tiling, decal and premul stages around it are not modelled. \<open>premulFlag\<close> is
  the mask \<^verbatim>\<open>SkGradientShader::kInterpolateColorsInPremul_Flag\<close>, declared outside the file.
\<close>

datatype gradient_stage =
    evenly_spaced_2_stop_gradient SkPM4f SkPM4f
  | evenly_spaced_gradient SkJumper_GradientCtx
  | gradient SkJumper_GradientCtx

definition onAppendStages ::
  "8 word \<Rightarrow> GradientShaderBase \<Rightarrow> SkColor4f list \<Rightarrow> error + gradient_stage" where
  "onAppendStages premulFlag g xformedColors =
     (let premulGrad = (fShaderGradFlags g AND premulFlag \<noteq> 0)
      in if fColorCount g = 2 \<and> fOrigPos g = None then
           (let c_l = prepareColor premulGrad xformedColors 0;
                c_r = prepareColor premulGrad xformedColors 1
            in Inr (evenly_spaced_2_stop_gradient (Sk4f_sub c_r c_l) c_l))
         else
           (case fOrigPos g of
              None \<Rightarrow>
                Inr (evenly_spaced_gradient
                       (evenly_spaced_stops premulGrad xformedColors (fColorCount g) new_ctx))
            | Some origPos \<Rightarrow>
                (case arbitrary_stops premulGrad xformedColors g origPos new_ctx of
                   Inl e \<Rightarrow> Inl e
                 | Inr ctx \<Rightarrow> Inr (gradient ctx))))"

subsection \<open>Evaluating the evenly spaced stages\<close>

text \<open>
  The comment above \<^verbatim>\<open>init_stop_evenly\<close>: "Calculate a factor F and a bias B so that
  color = F*t + B when t is in range of the stop".
\<close>

definition stop_color :: "SkPM4f \<Rightarrow> SkPM4f \<Rightarrow> real \<Rightarrow> SkPM4f" where
  "stop_color F B t = Sk4f_add (Sk4f_mul F (Sk4f_splat t)) B"

text \<open>
  Modelled from the spec: the pipeline stage \<^verbatim>\<open>evenly_spaced_gradient\<close> that consumes the
  context is defined outside \<^verbatim>\<open>SkGradientShader.cpp\<close>. The spec gives a segment as valid "for \<open>t\<close> in
  \<open>[tLow, tHigh)\<close> where \<open>tHigh\<close> is the next segment's \<open>tLow\<close> (or +\<infinity> for the last)", and
  places stop \<open>i\<close> of the uniform path at \<open>i/(n-1)\<close>. \<open>segment_at\<close> is the last segment
  whose \<open>tLow\<close> is at most \<open>t\<close>; there is none below the first \<open>tLow\<close>.
\<close>

definition segment_at :: "(nat \<Rightarrow> real) \<Rightarrow> nat \<Rightarrow> real \<Rightarrow> nat option" where
  "segment_at tLow n t =
     (case filter (\<lambda>i. tLow i \<le> t) (rev [0..<n]) of [] \<Rightarrow> None | i # _ \<Rightarrow> Some i)"

definition eval_evenly_spaced_gradient :: "SkJumper_GradientCtx \<Rightarrow> real \<Rightarrow> SkPM4f option" where
  "eval_evenly_spaced_gradient ctx t =
     (case segment_at (\<lambda>i. real i / real (stopCount ctx - 1)) (stopCount ctx) t of
        None \<Rightarrow> None
      | Some i \<Rightarrow>
          (case fs ctx i of
             None \<Rightarrow> None
           | Some F \<Rightarrow> (case bs ctx i of None \<Rightarrow> None | Some B \<Rightarrow> Some (stop_color F B t))))"

text \<open>
  Modelled from the spec: the pipeline stage \<^verbatim>\<open>evenly_spaced_2_stop_gradient\<close> is
  defined outside \<^verbatim>\<open>SkGradientShader.cpp\<close> as well. The spec: "emit exactly one segment spanning \<open>[0,1)\<close>:
  \<open>scale = c1 - c0\<close>, \<open>bias = c0\<close>".
\<close>

definition eval_evenly_spaced_2_stop_gradient :: "SkPM4f \<Rightarrow> SkPM4f \<Rightarrow> real \<Rightarrow> SkPM4f" where
  "eval_evenly_spaced_2_stop_gradient F B t = stop_color F B t"

subsection \<open>The lookup table of \<^verbatim>\<open>initLinearBitmap\<close>\<close>

text \<open>
  Modelled from the spec: \<^verbatim>\<open>getPos\<close> is declared in the class header, outside
  \<^verbatim>\<open>SkGradientShader.cpp\<close>. The spec: a missing position array "means evenly spaced", with gap
  \<open>1/(n-1)\<close>.
\<close>

definition getPos :: "GradientShaderBase \<Rightarrow> nat \<Rightarrow> SkScalar" where
  "getPos g i =
     (case fOrigPos g of
        Some origPos \<Rightarrow> origPos ! i
      | None \<Rightarrow> real i / real (fColorCount g - 1))"

definition kGradientTextureSize :: int where
  "kGradientTextureSize = 256"

text \<open>The conversion of a float to \<^verbatim>\<open>int\<close> drops the fraction (values out of range apart).\<close>

definition float_to_int :: "real \<Rightarrow> int" where
  "float_to_int x = (if 0 \<le> x then \<lfloor>x\<rfloor> else \<lceil>x\<rceil>)"

text \<open>
  The two colour types that this file hands to \<^verbatim>\<open>getGradientTableBitmap\<close>; the enum itself
  is declared outside the file.
\<close>

datatype SkColorType = kRGBA_8888_SkColorType | kRGBA_F16_SkColorType

text \<open>
  The encoders \<^verbatim>\<open>SkFloatToHalf_finite_ftz\<close> and \<^verbatim>\<open>Sk4f_toL32\<close> are declared outside the
  file. A texel of the model records which encoder was called and the value it was given.
  The pixel memory is a map from the texel index to the texel written there.
\<close>

datatype texel = Texel_F16 Sk4f | Texel_8888 Sk4f

type_synonym SkBitmap = "int \<rightharpoonup> texel"

definition writeF16Pixel :: "Sk4f \<Rightarrow> int \<Rightarrow> SkBitmap \<Rightarrow> SkBitmap" where
  "writeF16Pixel x index bitmap = bitmap(index \<mapsto> Texel_F16 x)"

definition write8888Pixel :: "Sk4f \<Rightarrow> int \<Rightarrow> SkBitmap \<Rightarrow> SkBitmap" where
  "write8888Pixel c index bitmap = bitmap(index \<mapsto> Texel_8888 c)"

definition writeSizedPixel :: "SkColorType \<Rightarrow> Sk4f \<Rightarrow> int \<Rightarrow> SkBitmap \<Rightarrow> SkBitmap" where
  "writeSizedPixel colorType =
     (if colorType = kRGBA_F16_SkColorType then writeF16Pixel else write8888Pixel)"

text \<open>
  \<^verbatim>\<open>initLinearBitmap\<close> computes on \<^verbatim>\<open>Sk4f\<close> in float, and every operation rounds its
  result. The model takes the four operations it uses as the parameter \<open>ar\<close>, so that what is
  proved of the table does not depend on how they round. \<open>exact_arith\<close> is the arithmetic
  without rounding.
\<close>

record float_arith =
  op_add :: "Sk4f \<Rightarrow> Sk4f \<Rightarrow> Sk4f"
  op_sub :: "Sk4f \<Rightarrow> Sk4f \<Rightarrow> Sk4f"
  op_mul :: "Sk4f \<Rightarrow> Sk4f \<Rightarrow> Sk4f"
  op_div :: "real \<Rightarrow> real \<Rightarrow> real"

definition exact_arith :: float_arith where
  "exact_arith = \<lparr> op_add = Sk4f_add, op_sub = Sk4f_sub, op_mul = Sk4f_mul, op_div = (/) \<rparr>"

text \<open>
  \<open>binary32_arith\<close> is the arithmetic of a \<^verbatim>\<open>float\<close> of 32 bits: every operation gives the
  exact result rounded to the nearest value with a significand of 24 bits, a tie going to
  the even significand. The exponent of a value is found among 127 down to -125, and is
  -126 below that (the subnormal values). Results of 2 to the power 128 and more, which a
  \<^verbatim>\<open>float\<close> turns into infinity, and NaN are not modelled.
\<close>

definition round_half_even :: "real \<Rightarrow> int" where
  "round_half_even x =
     (let f = \<lfloor>x\<rfloor>
      in if x - of_int f < 1/2 then f
         else if 1/2 < x - of_int f then f + 1
         else if even f then f else f + 1)"

primrec float_exponent_from :: "nat \<Rightarrow> real \<Rightarrow> int" where
  "float_exponent_from 0 a = -126"
| "float_exponent_from (Suc n) a =
     (if 2 powi (int n - 125) \<le> a then int n - 125 else float_exponent_from n a)"

definition float_exponent :: "real \<Rightarrow> int" where
  "float_exponent a = float_exponent_from 253 a"

definition round32 :: "real \<Rightarrow> real" where
  "round32 x =
     (let u = 2 powi (float_exponent \<bar>x\<bar> - 23)
      in of_int (round_half_even (x / u)) * u)"

fun Sk4f_round32 :: "Sk4f \<Rightarrow> Sk4f" where
  "Sk4f_round32 (Sk4f x0 x1 x2 x3) = Sk4f (round32 x0) (round32 x1) (round32 x2) (round32 x3)"

definition binary32_arith :: float_arith where
  "binary32_arith =
     \<lparr> op_add = (\<lambda>x y. Sk4f_round32 (Sk4f_add x y)),
       op_sub = (\<lambda>x y. Sk4f_round32 (Sk4f_sub x y)),
       op_mul = (\<lambda>x y. Sk4f_round32 (Sk4f_mul x y)),
       op_div = (\<lambda>x y. round32 (x / y)) \<rparr>"

definition writeUnpremulPixel ::
  "float_arith \<Rightarrow> SkColorType \<Rightarrow> Sk4f \<Rightarrow> int \<Rightarrow> SkBitmap \<Rightarrow> SkBitmap" where
  "writeUnpremulPixel ar colorType c index =
     writeSizedPixel colorType (op_mul ar c (Sk4f (chA c) (chA c) (chA c) 1)) index"

definition writePixel ::
  "float_arith \<Rightarrow> bool \<Rightarrow> SkColorType \<Rightarrow> Sk4f \<Rightarrow> int \<Rightarrow> SkBitmap \<Rightarrow> SkBitmap" where
  "writePixel ar interpInPremul colorType =
     (if interpInPremul then writeSizedPixel colorType else writeUnpremulPixel ar colorType)"

text \<open>The inner loop of lines 540 to 543.\<close>

function span_loop ::
  "float_arith \<Rightarrow> (Sk4f \<Rightarrow> int \<Rightarrow> SkBitmap \<Rightarrow> SkBitmap) \<Rightarrow> Sk4f \<Rightarrow> int \<Rightarrow> Sk4f \<Rightarrow> int
     \<Rightarrow> SkBitmap \<Rightarrow> SkBitmap" where
  "span_loop ar wr delta nextIndex c0 curIndex bitmap =
     (if curIndex \<le> nextIndex
      then span_loop ar wr delta nextIndex (op_add ar c0 delta) (curIndex + 1)
             (wr c0 curIndex bitmap)
      else bitmap)"
  by pat_completeness auto
termination
  by (relation "measure (\<lambda>(ar, wr, delta, nextIndex, c0, curIndex, bitmap).
                   nat (nextIndex + 1 - curIndex))")
     auto

declare span_loop.simps [simp del]

text \<open>
  The texel index of stop \<open>i\<close>, lines 525 and 526: the smaller of the position times 256
  and 255 (\<^verbatim>\<open>SkTMin\<close>), converted to \<^verbatim>\<open>int\<close>.
\<close>

definition stop_index :: "GradientShaderBase \<Rightarrow> nat \<Rightarrow> int" where
  "stop_index g i =
     float_to_int (min (getPos g i * real_of_int kGradientTextureSize)
                       (real_of_int (kGradientTextureSize - 1)))"

text \<open>One round of the loop of lines 521 to 546; the loop state is \<^verbatim>\<open>prevIndex\<close> and the pixels.\<close>

definition bitmap_step ::
  "float_arith \<Rightarrow> bool \<Rightarrow> SkColorType \<Rightarrow> GradientShaderBase \<Rightarrow> SkColor4f list
     \<Rightarrow> int \<times> SkBitmap \<Rightarrow> nat \<Rightarrow> int \<times> SkBitmap" where
  "bitmap_step ar interpInPremul colorType g colors s i =
     (let prevIndex = fst s;
          nextIndex = stop_index g i
      in if nextIndex > prevIndex then
           (let c0 = Load (colors ! (i - 1));
                c1 = Load (colors ! i);
                c0' = (if interpInPremul
                       then op_mul ar c0 (Sk4f (chA c0) (chA c0) (chA c0) 1) else c0);
                c1' = (if interpInPremul
                       then op_mul ar c1 (Sk4f (chA c1) (chA c1) (chA c1) 1) else c1);
                step = Sk4f_splat (op_div ar 1 (real_of_int (nextIndex - prevIndex)));
                delta = op_mul ar (op_sub ar c1' c0') step
            in (nextIndex,
                span_loop ar (writePixel ar interpInPremul colorType) delta nextIndex c0'
                  prevIndex (snd s)))
         else (nextIndex, snd s))"

definition initLinearBitmap ::
  "float_arith \<Rightarrow> 8 word \<Rightarrow> GradientShaderBase \<Rightarrow> SkColor4f list \<Rightarrow> SkBitmap \<Rightarrow> SkColorType
     \<Rightarrow> SkBitmap" where
  "initLinearBitmap ar premulFlag g colors bitmap colorType =
     (let interpInPremul = (fShaderGradFlags g AND premulFlag \<noteq> 0)
      in snd (foldl (bitmap_step ar interpInPremul colorType g colors) (0, bitmap)
                [1..<fColorCount g]))"

subsection \<open>The table cache of \<^verbatim>\<open>getGradientTableBitmap\<close>\<close>

text \<open>
  The key of lines 560 to 581, as the list of its 32-bit words. \<open>bits\<close> is
  \<^verbatim>\<open>SkFloat2Bits\<close> and \<open>typeValue\<close> the integer value of the colour type, both declared
  outside the file. \<^verbatim>\<open>memcpy\<close> copies the four floats of each colour in the order of the
  struct.
\<close>

definition table_key ::
  "(real \<Rightarrow> 32 word) \<Rightarrow> (SkColorType \<Rightarrow> 32 word) \<Rightarrow> GradientShaderBase \<Rightarrow> SkColor4f list
     \<Rightarrow> SkColorType \<Rightarrow> 32 word list" where
  "table_key bits typeValue g colors colorType =
     [of_nat (fColorCount g)]
     @ concat (map (\<lambda>i. [bits (fR (colors ! i)), bits (fG (colors ! i)),
                          bits (fB (colors ! i)), bits (fA (colors ! i))])
                 [0..<fColorCount g])
     @ (if fColorCount g > 2 then map (\<lambda>i. bits (getPos g i)) [1..<fColorCount g] else [])
     @ [ucast (fShaderGradFlags g)]
     @ [typeValue colorType]"

text \<open>
  Modelled from the spec: the class \<^verbatim>\<open>SkGradientBitmapCache\<close> is defined outside
  \<^verbatim>\<open>SkGradientShader.cpp\<close>. The spec: the cache "holds \<open>\<le> N\<close> entries", each a key with its table; a lookup
  returns the cached table on a hit; an insertion evicts "the least-recently-used entry if at
  capacity". The entries are kept most recently used first.
\<close>

record SkGradientBitmapCache =
  fMaxEntries :: nat
  fEntries :: "(32 word list \<times> SkBitmap) list"

definition cache_find ::
  "32 word list \<Rightarrow> SkGradientBitmapCache \<Rightarrow> SkBitmap option \<times> SkGradientBitmapCache" where
  "cache_find key cache =
     (case map_of (fEntries cache) key of
        None \<Rightarrow> (None, cache)
      | Some bitmap \<Rightarrow>
          (Some bitmap,
           cache\<lparr> fEntries := (key, bitmap) # filter (\<lambda>e. fst e \<noteq> key) (fEntries cache) \<rparr>))"

definition cache_add ::
  "32 word list \<Rightarrow> SkBitmap \<Rightarrow> SkGradientBitmapCache \<Rightarrow> SkGradientBitmapCache" where
  "cache_add key bitmap cache =
     (let es = (key, bitmap) # fEntries cache
      in cache\<lparr> fEntries := (if length es > fMaxEntries cache then butlast es else es) \<rparr>)"

definition MAX_NUM_CACHED_GRADIENT_BITMAPS :: nat where
  "MAX_NUM_CACHED_GRADIENT_BITMAPS = 32"

text \<open>
  Lines 585 to 602. The static \<^verbatim>\<open>gCache\<close> is passed in and returned; \<^term>\<open>None\<close> is the
  null pointer before the first call. The result is the bitmap handed back, the cache
  afterwards, and whether \<^verbatim>\<open>initLinearBitmap\<close> ran. The mutex is not modelled: calls are
  taken one after the other.
\<close>

definition getGradientTableBitmap ::
  "float_arith \<Rightarrow> (real \<Rightarrow> 32 word) \<Rightarrow> (SkColorType \<Rightarrow> 32 word) \<Rightarrow> 8 word
     \<Rightarrow> GradientShaderBase \<Rightarrow> SkColor4f list \<Rightarrow> SkColorType \<Rightarrow> SkGradientBitmapCache option
     \<Rightarrow> SkBitmap \<times> SkGradientBitmapCache option \<times> bool" where
  "getGradientTableBitmap ar bits typeValue premulFlag g colors colorType gCache =
     (let key = table_key bits typeValue g colors colorType;
          cache = (case gCache of
                     None \<Rightarrow> \<lparr> fMaxEntries = MAX_NUM_CACHED_GRADIENT_BITMAPS, fEntries = [] \<rparr>
                   | Some c \<Rightarrow> c)
      in case cache_find key cache of
           (Some bitmap, cache') \<Rightarrow> (bitmap, Some cache', False)
         | (None, cache') \<Rightarrow>
             (let bitmap = initLinearBitmap ar premulFlag g colors Map.empty colorType
              in (bitmap, Some (cache_add key bitmap cache'), True)))"

section \<open>Properties\<close>

subsection \<open>Canonical positions\<close>

lemma pin_loop_length:
  "length (fst (pin_loop tol us pos n is prev u)) = length is"
  by (induction "is" arbitrary: prev u) (simp_all add: Let_def)

lemma pin_loop_Nil_iff:
  "fst (pin_loop tol us pos n is prev u) = [] \<longleftrightarrow> is = []"
  using pin_loop_length [of tol us pos n "is" prev u] by (metis length_0_conv)

lemma pin_step_bounds:
  "prev \<le> 1 \<Longrightarrow> prev \<le> (if i = n then 1 else SkScalarPin x prev 1)
     \<and> (if i = n then 1 else SkScalarPin x prev 1) \<le> 1"
  by (simp add: SkScalarPin_def)

lemma pin_loop_sorted:
  "prev \<le> 1 \<Longrightarrow> sorted (prev # fst (pin_loop tol us pos n is prev u))
     \<and> (\<forall>x \<in> set (fst (pin_loop tol us pos n is prev u)). x \<le> 1)"
proof (induction "is" arbitrary: prev u)
  case Nil
  then show ?case by simp
next
  case (Cons i "is")
  let ?curr = "if i = n then 1 else SkScalarPin (pos ! i) prev 1"
  let ?u = "u \<and> SkScalarNearlyEqual tol us (?curr - prev)"
  have b: "prev \<le> ?curr" "?curr \<le> 1"
    using pin_step_bounds [OF Cons.prems, of i n "pos ! i"] by simp_all
  have ih: "sorted (?curr # fst (pin_loop tol us pos n is ?curr ?u))
     \<and> (\<forall>x \<in> set (fst (pin_loop tol us pos n is ?curr ?u)). x \<le> 1)"
    using Cons.IH [OF b(2)] .
  then have "\<forall>x \<in> set (fst (pin_loop tol us pos n is ?curr ?u)). prev \<le> x"
    using b(1) by fastforce
  with ih b show ?case by (simp add: Let_def)
qed

lemma pin_loop_nth:
  "j < length is \<Longrightarrow>
   fst (pin_loop tol us pos n is prev u) ! j =
     (if is ! j = n then 1
      else SkScalarPin (pos ! (is ! j)) ((prev # fst (pin_loop tol us pos n is prev u)) ! j) 1)"
proof (induction "is" arbitrary: prev u j)
  case Nil
  then show ?case by simp
next
  case (Cons i "is")
  show ?case
  proof (cases j)
    case 0
    then show ?thesis by (simp add: Let_def)
  next
    case (Suc j')
    with Cons.prems have "j' < length is" by simp
    from Cons.IH [OF this] Suc show ?thesis by (simp add: Let_def)
  qed
qed

lemma pin_loop_last:
  "is \<noteq> [] \<Longrightarrow> prev \<le> 1 \<Longrightarrow> last is = n \<or> pos ! last is = 1 \<Longrightarrow>
   last (fst (pin_loop tol us pos n is prev u)) = 1"
proof (induction "is" arbitrary: prev u)
  case Nil
  then show ?case by simp
next
  case (Cons i "is")
  let ?curr = "if i = n then 1 else SkScalarPin (pos ! i) prev 1"
  have b: "?curr \<le> 1"
    using pin_step_bounds [OF Cons.prems(2), of i n "pos ! i"] by simp
  show ?case
  proof (cases "is = []")
    case True
    with Cons.prems show ?thesis by (auto simp add: Let_def SkScalarPin_def)
  next
    case False
    with Cons.prems(3) have "last is = n \<or> pos ! last is = 1" by simp
    from Cons.IH [OF False b this] False show ?thesis
      by (simp add: Let_def pin_loop_Nil_iff)
  qed
qed

lemma pinned_positions_props:
  assumes pos: "fPos desc = Some pos" and n2: "2 \<le> fCount desc"
    and len: "fCount desc \<le> length pos"
  shows "length (fst (pinned_positions tol desc pos)) = fColorCount (SkGradientShaderBase_ctor tol desc)"
    and "fst (pinned_positions tol desc pos) ! 0 = 0"
    and "last (fst (pinned_positions tol desc pos)) = 1"
    and "sorted (fst (pinned_positions tol desc pos))"
proof -
  let ?s = "if dummyFirst desc then 0 else 1::nat"
  let ?c = "fCount desc + (if dummyLast desc then 1 else 0)"
  let ?is = "[?s..<?c]"
  let ?r = "pin_loop tol (pos ! ?s - 0) pos (fCount desc) ?is 0 True"
  have E: "fst (pinned_positions tol desc pos) = 0 # fst ?r"
    by (simp add: pinned_positions_def Let_def)
  have ne: "?is \<noteq> []" using n2 by simp
  have lst: "last ?is = ?c - 1" using n2 by simp
  show "length (fst (pinned_positions tol desc pos)) = fColorCount (SkGradientShaderBase_ctor tol desc)"
    using n2 by (simp add: E pin_loop_length SkGradientShaderBase_ctor_def)
  show "fst (pinned_positions tol desc pos) ! 0 = 0" by (simp add: E)
  have "last ?is = fCount desc \<or> pos ! last ?is = 1"
    unfolding lst using pos n2 by (auto simp add: dummyLast_def)
  from pin_loop_last [OF ne _ this, of 0 tol "pos ! ?s - 0" True]
  show "last (fst (pinned_positions tol desc pos)) = 1"
    using ne by (simp add: E pin_loop_Nil_iff)
  show "sorted (fst (pinned_positions tol desc pos))"
    unfolding E using pin_loop_sorted [of 0 tol "pos ! ?s - 0" pos "fCount desc" ?is True] by simp
qed

lemma pinned_positions_nth:
  assumes pos: "fPos desc = Some pos" and n2: "2 \<le> fCount desc"
    and k: "1 \<le> k" "k < length (fst (pinned_positions tol desc pos))"
  shows "fst (pinned_positions tol desc pos) ! k =
     (if k - (if dummyFirst desc then 1 else 0) = fCount desc then 1
      else SkScalarPin (pos ! (k - (if dummyFirst desc then 1 else 0)))
             (fst (pinned_positions tol desc pos) ! (k - 1)) 1)"
proof -
  let ?s = "if dummyFirst desc then 0 else 1::nat"
  let ?c = "fCount desc + (if dummyLast desc then 1 else 0)"
  let ?is = "[?s..<?c]"
  let ?r = "pin_loop tol (pos ! ?s - 0) pos (fCount desc) ?is 0 True"
  have E: "fst (pinned_positions tol desc pos) = 0 # fst ?r"
    by (simp add: pinned_positions_def Let_def)
  from k obtain j where j: "k = Suc j" by (cases k) simp_all
  with k(2) have jl: "j < length ?is" by (simp add: E pin_loop_length)
  then have idx: "?is ! j = k - (if dummyFirst desc then 1 else 0)"
    using j by (simp add: nth_upt)
  from pin_loop_nth [OF jl, of tol "pos ! ?s - 0" pos "fCount desc" 0 True]
  show ?thesis unfolding E j idx [unfolded j] by simp
qed


text \<open>
  C1. With a position array and at least two colours, the positions that the constructor
  writes start at 0, end at 1 and never decrease; each one after the first is 1 for the
  appended last stop and otherwise the raw position pinned between the position written
  before it and 1. The shader keeps exactly this array, unless the stops are uniform.
\<close>

theorem canonical_positions_bracketed:
  assumes "fPos desc = Some pos" and "2 \<le> fCount desc" and "fCount desc \<le> length pos"
  shows "fOrigPos (SkGradientShaderBase_ctor tol desc) =
           (if snd (pinned_positions tol desc pos) then None
            else Some (fst (pinned_positions tol desc pos)))
     \<and> length (fst (pinned_positions tol desc pos)) = fColorCount (SkGradientShaderBase_ctor tol desc)
     \<and> fst (pinned_positions tol desc pos) ! 0 = 0
     \<and> last (fst (pinned_positions tol desc pos)) = 1
     \<and> sorted (fst (pinned_positions tol desc pos))
     \<and> (\<forall>k. 1 \<le> k \<and> k < length (fst (pinned_positions tol desc pos)) \<longrightarrow>
           fst (pinned_positions tol desc pos) ! k =
             (if k - (if pos ! 0 \<noteq> 0 then 1 else 0) = fCount desc then 1
              else SkScalarPin (pos ! (k - (if pos ! 0 \<noteq> 0 then 1 else 0)))
                     (fst (pinned_positions tol desc pos) ! (k - 1)) 1))"
proof -
  have df: "dummyFirst desc = (pos ! 0 \<noteq> 0)"
    using assms(1) by (simp add: dummyFirst_def)
  have "fOrigPos (SkGradientShaderBase_ctor tol desc) =
           (if snd (pinned_positions tol desc pos) then None
            else Some (fst (pinned_positions tol desc pos)))"
    using assms(1) by (simp add: SkGradientShaderBase_ctor_def Let_def)
  moreover note pinned_positions_props [OF assms, of tol]
  moreover have "\<forall>k. 1 \<le> k \<and> k < length (fst (pinned_positions tol desc pos)) \<longrightarrow>
           fst (pinned_positions tol desc pos) ! k =
             (if k - (if pos ! 0 \<noteq> 0 then 1 else 0) = fCount desc then 1
              else SkScalarPin (pos ! (k - (if pos ! 0 \<noteq> 0 then 1 else 0)))
                     (fst (pinned_positions tol desc pos) ! (k - 1)) 1)"
    using pinned_positions_nth [OF assms(1,2), of _ tol] unfolding df by blast
  ultimately show ?thesis by blast
qed

lemma upt_0_4: "[0..<4] = [0, 1, 2, 3]" by (simp add: upt_rec)

theorem canonical_positions_bracketed_witness:
  "fPos \<lparr> fColors = [\<lparr>fR = 1, fG = 0, fB = 0, fA = 1\<rparr>, \<lparr>fR = 0, fG = 1, fB = 0, fA = 1\<rparr>,
                     \<lparr>fR = 0, fG = 0, fB = 1, fA = 1\<rparr>],
          fPos = Some [1/2, 1/5, 9/10], fCount = 3,
          fTileMode = kClamp_TileMode, fGradFlags = 0 \<rparr> = Some [1/2, 1/5, 9/10]
   \<and> (2::nat) \<le> 3 \<and> (3::nat) \<le> length [1/2, 1/5, 9/10 :: real]
   \<and> fOrigPos (SkGradientShaderBase_ctor (1 / 4096)
        \<lparr> fColors = [\<lparr>fR = 1, fG = 0, fB = 0, fA = 1\<rparr>, \<lparr>fR = 0, fG = 1, fB = 0, fA = 1\<rparr>,
                     \<lparr>fR = 0, fG = 0, fB = 1, fA = 1\<rparr>],
          fPos = Some [1/2, 1/5, 9/10], fCount = 3,
          fTileMode = kClamp_TileMode, fGradFlags = 0 \<rparr>) = Some [0, 1/2, 1/2, 9/10, 1]"
  using canonical_positions_bracketed [of
        "\<lparr> fColors = [\<lparr>fR = 1, fG = 0, fB = 0, fA = 1\<rparr>, \<lparr>fR = 0, fG = 1, fB = 0, fA = 1\<rparr>,
                     \<lparr>fR = 0, fG = 0, fB = 1, fA = 1\<rparr>],
          fPos = Some [1/2, 1/5, 9/10], fCount = 3,
          fTileMode = kClamp_TileMode, fGradFlags = 0 \<rparr>" "[1/2, 1/5, 9/10]" "1 / 4096"]
  by (simp add: pinned_positions_def dummyFirst_def dummyLast_def Let_def upt_0_4
        SkScalarPin_def SkScalarNearlyEqual_def)

subsection \<open>Uniform stops\<close>

lemma pin_loop_fst_indep:
  "fst (pin_loop tol us pos n is prev u) = fst (pin_loop tol us' pos n is prev u')"
proof (induction "is" arbitrary: prev u u')
  case Nil
  then show ?case by simp
next
  case (Cons i "is")
  let ?curr = "if i = n then 1 else SkScalarPin (pos ! i) prev 1"
  have "fst (pin_loop tol us pos n is ?curr (u \<and> SkScalarNearlyEqual tol us (?curr - prev)))
      = fst (pin_loop tol us' pos n is ?curr (u' \<and> SkScalarNearlyEqual tol us' (?curr - prev)))"
    by (rule Cons.IH)
  then show ?case by (simp add: Let_def)
qed



















subsection \<open>Boundary stops\<close>

lemma upt_0_2: "[0..<2] = [0, Suc 0]" by (simp add: upt_rec)
lemma upt_0_3: "[0..<3] = [0, Suc 0, 2]" by (simp add: upt_rec)

text \<open>
  C3. With a position array, the canonical colours are the descriptor's colours, preceded by
  a copy of the first one when the first position is not 0 and followed by a copy of the
  last one when the last position is not 1; the colour count grows accordingly. The colours
  \<open>{A, B}\<close> at \<open>{0.3, 0.7}\<close> become \<open>{A, A, B, B}\<close> at \<open>{0, 0.3, 0.7, 1}\<close> (the positions
  are kept for any tolerance below \<open>0.1\<close>).
\<close>

theorem dummy_stops_inserted:
  assumes "fPos desc = Some pos"
  shows "fOrigColors4f (SkGradientShaderBase_ctor tol desc) =
           (if pos ! 0 \<noteq> 0 then [fColors desc ! 0] else [])
           @ map (\<lambda>i. fColors desc ! i) [0..<fCount desc]
           @ (if pos ! (fCount desc - 1) \<noteq> 1 then [fColors desc ! (fCount desc - 1)] else [])
     \<and> fColorCount (SkGradientShaderBase_ctor tol desc) =
           fCount desc + (if pos ! 0 \<noteq> 0 then 1 else 0)
                       + (if pos ! (fCount desc - 1) \<noteq> 1 then 1 else 0)
     \<and> (tol < 1/10 \<longrightarrow>
          fColorCount (SkGradientShaderBase_ctor tol
            \<lparr> fColors = [A, B], fPos = Some [3/10, 7/10], fCount = 2,
              fTileMode = mode, fGradFlags = flags \<rparr>) = 4
        \<and> fOrigColors4f (SkGradientShaderBase_ctor tol
            \<lparr> fColors = [A, B], fPos = Some [3/10, 7/10], fCount = 2,
              fTileMode = mode, fGradFlags = flags \<rparr>) = [A, A, B, B]
        \<and> fOrigPos (SkGradientShaderBase_ctor tol
            \<lparr> fColors = [A, B], fPos = Some [3/10, 7/10], fCount = 2,
              fTileMode = mode, fGradFlags = flags \<rparr>) = Some [0, 3/10, 7/10, 1])"
proof -
  have a: "fOrigColors4f (SkGradientShaderBase_ctor tol desc) =
           (if pos ! 0 \<noteq> 0 then [fColors desc ! 0] else [])
           @ map (\<lambda>i. fColors desc ! i) [0..<fCount desc]
           @ (if pos ! (fCount desc - 1) \<noteq> 1 then [fColors desc ! (fCount desc - 1)] else [])"
    using assms by (simp add: SkGradientShaderBase_ctor_def dummyFirst_def dummyLast_def)
  have b: "fColorCount (SkGradientShaderBase_ctor tol desc) =
           fCount desc + (if pos ! 0 \<noteq> 0 then 1 else 0)
                       + (if pos ! (fCount desc - 1) \<noteq> 1 then 1 else 0)"
    using assms by (simp add: SkGradientShaderBase_ctor_def dummyFirst_def dummyLast_def)
  have c: "tol < 1/10 \<longrightarrow>
          fColorCount (SkGradientShaderBase_ctor tol
            \<lparr> fColors = [A, B], fPos = Some [3/10, 7/10], fCount = 2,
              fTileMode = mode, fGradFlags = flags \<rparr>) = 4
        \<and> fOrigColors4f (SkGradientShaderBase_ctor tol
            \<lparr> fColors = [A, B], fPos = Some [3/10, 7/10], fCount = 2,
              fTileMode = mode, fGradFlags = flags \<rparr>) = [A, A, B, B]
        \<and> fOrigPos (SkGradientShaderBase_ctor tol
            \<lparr> fColors = [A, B], fPos = Some [3/10, 7/10], fCount = 2,
              fTileMode = mode, fGradFlags = flags \<rparr>) = Some [0, 3/10, 7/10, 1]"
    by (simp add: SkGradientShaderBase_ctor_def pinned_positions_def dummyFirst_def
          dummyLast_def Let_def upt_0_2 upt_0_3 SkScalarPin_def SkScalarNearlyEqual_def)
  from a b c show ?thesis by blast
qed

theorem dummy_stops_inserted_witness:
  "fPos \<lparr> fColors = [\<lparr>fR = 1, fG = 0, fB = 0, fA = 1\<rparr>, \<lparr>fR = 0, fG = 0, fB = 1, fA = 1\<rparr>],
          fPos = Some [3/10, 7/10], fCount = 2, fTileMode = kClamp_TileMode, fGradFlags = 0 \<rparr>
     = Some [3/10, 7/10]
   \<and> (1 / 4096 :: real) < 1 / 10
   \<and> fOrigColors4f (SkGradientShaderBase_ctor (1 / 4096)
        \<lparr> fColors = [\<lparr>fR = 1, fG = 0, fB = 0, fA = 1\<rparr>, \<lparr>fR = 0, fG = 0, fB = 1, fA = 1\<rparr>],
          fPos = Some [3/10, 7/10], fCount = 2, fTileMode = kClamp_TileMode, fGradFlags = 0 \<rparr>)
     = [\<lparr>fR = 1, fG = 0, fB = 0, fA = 1\<rparr>, \<lparr>fR = 1, fG = 0, fB = 0, fA = 1\<rparr>,
        \<lparr>fR = 0, fG = 0, fB = 1, fA = 1\<rparr>, \<lparr>fR = 0, fG = 0, fB = 1, fA = 1\<rparr>]
   \<and> fOrigPos (SkGradientShaderBase_ctor (1 / 4096)
        \<lparr> fColors = [\<lparr>fR = 1, fG = 0, fB = 0, fA = 1\<rparr>, \<lparr>fR = 0, fG = 0, fB = 1, fA = 1\<rparr>],
          fPos = Some [3/10, 7/10], fCount = 2, fTileMode = kClamp_TileMode, fGradFlags = 0 \<rparr>)
     = Some [0, 3/10, 7/10, 1]"
  using dummy_stops_inserted [of
      "\<lparr> fColors = [\<lparr>fR = 1, fG = 0, fB = 0, fA = 1\<rparr>, \<lparr>fR = 0, fG = 0, fB = 1, fA = 1\<rparr>],
          fPos = Some [3/10, 7/10], fCount = 2, fTileMode = kClamp_TileMode, fGradFlags = 0 \<rparr>"
      "[3/10, 7/10]" "1 / 4096" "\<lparr>fR = 1, fG = 0, fB = 0, fA = 1\<rparr>" "\<lparr>fR = 0, fG = 0, fB = 1, fA = 1\<rparr>"
      kClamp_TileMode 0]
  by (simp add: upt_0_2)

subsection \<open>The three-stop optimizer\<close>

text \<open>
  C4, as the optimizer has it. For three colours \<open>{R, G, B}\<close> at \<open>{0, 0, 1}\<close> the optimizer
  drops the leftmost stop, leaving \<open>{G, B}\<close> at \<open>{0, 1}\<close>, when the tile mode is Repeat or
  Mirror or when \<open>R = G\<close>; otherwise (Clamp or Decal with \<open>R \<noteq> G\<close>) the three stops stay.
\<close>

theorem ColorStopOptimizer_hard_left:
  assumes "0 \<le> tol"
  shows "ColorStopOptimizer tol [R, G, B] (Some [0, 0, 1]) 3 mode =
           (if mode = kRepeat_TileMode \<or> mode = kMirror_TileMode \<or> R = G
            then ([G, B], Some [0, 1], 2)
            else ([R, G, B], Some [0, 0, 1], 3))"
  using assms by (simp add: ColorStopOptimizer_def SkScalarNearlyEqual_def)

theorem ColorStopOptimizer_hard_left_witness:
  "(0::real) \<le> 1 / 4096
   \<and> ColorStopOptimizer (1 / 4096)
        [\<lparr>fR = 1, fG = 0, fB = 0, fA = 1\<rparr>, \<lparr>fR = 0, fG = 1, fB = 0, fA = 1\<rparr>,
         \<lparr>fR = 0, fG = 0, fB = 1, fA = 1\<rparr>] (Some [0, 0, 1]) 3 kRepeat_TileMode
     = ([\<lparr>fR = 0, fG = 1, fB = 0, fA = 1\<rparr>, \<lparr>fR = 0, fG = 0, fB = 1, fA = 1\<rparr>], Some [0, 1], 2)"
  using ColorStopOptimizer_hard_left [of "1 / 4096" "\<lparr>fR = 1, fG = 0, fB = 0, fA = 1\<rparr>"
      "\<lparr>fR = 0, fG = 1, fB = 0, fA = 1\<rparr>" "\<lparr>fR = 0, fG = 0, fB = 1, fA = 1\<rparr>" kRepeat_TileMode]
  by simp

text \<open>Under Clamp, red, green and blue at \<open>{0, 0, 1}\<close> stay three stops.\<close>

theorem ColorStopOptimizer_clamp_counterexample:
  "ColorStopOptimizer (1 / 4096)
        [\<lparr>fR = 1, fG = 0, fB = 0, fA = 1\<rparr>, \<lparr>fR = 0, fG = 1, fB = 0, fA = 1\<rparr>,
         \<lparr>fR = 0, fG = 0, fB = 1, fA = 1\<rparr>] (Some [0, 0, 1]) 3 kClamp_TileMode
     = ([\<lparr>fR = 1, fG = 0, fB = 0, fA = 1\<rparr>, \<lparr>fR = 0, fG = 1, fB = 0, fA = 1\<rparr>,
         \<lparr>fR = 0, fG = 0, fB = 1, fA = 1\<rparr>], Some [0, 0, 1], 3)
   \<and> fst (ColorStopOptimizer (1 / 4096)
        [\<lparr>fR = 1, fG = 0, fB = 0, fA = 1\<rparr>, \<lparr>fR = 0, fG = 1, fB = 0, fA = 1\<rparr>,
         \<lparr>fR = 0, fG = 0, fB = 1, fA = 1\<rparr>] (Some [0, 0, 1]) 3 kClamp_TileMode)
     \<noteq> [\<lparr>fR = 0, fG = 1, fB = 0, fA = 1\<rparr>, \<lparr>fR = 0, fG = 0, fB = 1, fA = 1\<rparr>]"
  by (simp add: ColorStopOptimizer_def SkScalarNearlyEqual_def)

subsection \<open>Evenly spaced stops\<close>

lemma init_stop_evenly_eq:
  "init_stop_evenly ctx gapCount stop c_l c_r =
     add_stop_color ctx stop
       (Sk4f_mul (Sk4f_sub c_r c_l) (Sk4f_splat gapCount))
       (Sk4f_sub c_l (Sk4f_mul (Sk4f_mul (Sk4f_sub c_r c_l) (Sk4f_splat gapCount))
                               (Sk4f_splat (real stop / gapCount))))"
  by (cases c_l; cases c_r) (simp add: init_stop_evenly_def Let_def Sk4f_splat_def)

lemma evenly_foldl:
  "\<exists>ctx'. foldl (evenly_step p cs gap) (ctx, prepareColor p cs 0) [0..<m]
            = (ctx', prepareColor p cs m)
     \<and> (\<forall>i < m.
           fs ctx' i = Some (Sk4f_mul (Sk4f_sub (prepareColor p cs (i + 1)) (prepareColor p cs i))
                                      (Sk4f_splat gap))
         \<and> bs ctx' i = Some (Sk4f_sub (prepareColor p cs i)
                 (Sk4f_mul (Sk4f_mul (Sk4f_sub (prepareColor p cs (i + 1)) (prepareColor p cs i))
                                     (Sk4f_splat gap))
                           (Sk4f_splat (real i / gap)))))
     \<and> (\<forall>i \<ge> m. fs ctx' i = fs ctx i \<and> bs ctx' i = bs ctx i)
     \<and> ts ctx' = ts ctx \<and> stopCount ctx' = stopCount ctx"
proof (induction m)
  case 0
  then show ?case by simp
next
  case (Suc m)
  then obtain ctx' where
    f: "foldl (evenly_step p cs gap) (ctx, prepareColor p cs 0) [0..<m] = (ctx', prepareColor p cs m)"
    and lo: "\<forall>i < m.
           fs ctx' i = Some (Sk4f_mul (Sk4f_sub (prepareColor p cs (i + 1)) (prepareColor p cs i))
                                      (Sk4f_splat gap))
         \<and> bs ctx' i = Some (Sk4f_sub (prepareColor p cs i)
                 (Sk4f_mul (Sk4f_mul (Sk4f_sub (prepareColor p cs (i + 1)) (prepareColor p cs i))
                                     (Sk4f_splat gap))
                           (Sk4f_splat (real i / gap))))"
    and hi: "\<forall>i \<ge> m. fs ctx' i = fs ctx i \<and> bs ctx' i = bs ctx i"
    and rest: "ts ctx' = ts ctx" "stopCount ctx' = stopCount ctx"
    by blast
  let ?ctx'' = "init_stop_evenly ctx' gap m (prepareColor p cs m) (prepareColor p cs (m + 1))"
  have step: "foldl (evenly_step p cs gap) (ctx, prepareColor p cs 0) [0..<Suc m]
            = (?ctx'', prepareColor p cs (Suc m))"
    by (simp add: f evenly_step_def Let_def)
  have "\<forall>i < Suc m.
           fs ?ctx'' i = Some (Sk4f_mul (Sk4f_sub (prepareColor p cs (i + 1)) (prepareColor p cs i))
                                      (Sk4f_splat gap))
         \<and> bs ?ctx'' i = Some (Sk4f_sub (prepareColor p cs i)
                 (Sk4f_mul (Sk4f_mul (Sk4f_sub (prepareColor p cs (i + 1)) (prepareColor p cs i))
                                     (Sk4f_splat gap))
                           (Sk4f_splat (real i / gap))))"
    using lo by (simp add: init_stop_evenly_eq add_stop_color_def less_Suc_eq)
  moreover have "\<forall>i \<ge> Suc m. fs ?ctx'' i = fs ctx i \<and> bs ?ctx'' i = bs ctx i"
    using hi by (simp add: init_stop_evenly_eq add_stop_color_def)
  moreover have "ts ?ctx'' = ts ctx \<and> stopCount ?ctx'' = stopCount ctx"
    using rest by (simp add: init_stop_evenly_eq add_stop_color_def)
  ultimately show ?case using step by blast
qed

lemma segment_at_last:
  "0 < n \<Longrightarrow> tLow (n - 1) \<le> t \<Longrightarrow> segment_at tLow n t = Some (n - 1)"
proof -
  assume n: "0 < n" and t: "tLow (n - 1) \<le> t"
  from n obtain m where m: "n = Suc m" by (cases n) simp_all
  show ?thesis using t unfolding m by (simp add: segment_at_def)
qed

lemma stop_color_const: "stop_color (Sk4f 0 0 0 0) B t = B"
  by (cases B) (simp add: stop_color_def Sk4f_splat_def)

lemma evenly_spaced_stops_props:
  assumes n: "0 < n"
  shows "stopCount (evenly_spaced_stops p cs n ctx) = n"
    and "\<forall>i < n - 1.
           fs (evenly_spaced_stops p cs n ctx) i =
             Some (Sk4f_mul (Sk4f_sub (prepareColor p cs (i + 1)) (prepareColor p cs i))
                            (Sk4f_splat (real (n - 1))))
         \<and> bs (evenly_spaced_stops p cs n ctx) i =
             Some (Sk4f_sub (prepareColor p cs i)
                 (Sk4f_mul (Sk4f_mul (Sk4f_sub (prepareColor p cs (i + 1)) (prepareColor p cs i))
                                     (Sk4f_splat (real (n - 1))))
                           (Sk4f_splat (real i / real (n - 1)))))"
    and "fs (evenly_spaced_stops p cs n ctx) (n - 1) = Some (Sk4f 0 0 0 0)"
    and "bs (evenly_spaced_stops p cs n ctx) (n - 1) = Some (prepareColor p cs (n - 1))"
proof -
  from evenly_foldl [of p cs "real (n - 1)" ctx "n - 1"] obtain ctx' where
    f: "foldl (evenly_step p cs (real (n - 1))) (ctx, prepareColor p cs 0) [0..<n - 1]
          = (ctx', prepareColor p cs (n - 1))"
    and lo: "\<forall>i < n - 1.
           fs ctx' i = Some (Sk4f_mul (Sk4f_sub (prepareColor p cs (i + 1)) (prepareColor p cs i))
                                      (Sk4f_splat (real (n - 1))))
         \<and> bs ctx' i = Some (Sk4f_sub (prepareColor p cs i)
                 (Sk4f_mul (Sk4f_mul (Sk4f_sub (prepareColor p cs (i + 1)) (prepareColor p cs i))
                                     (Sk4f_splat (real (n - 1))))
                           (Sk4f_splat (real i / real (n - 1)))))"
    by blast
  have e: "evenly_spaced_stops p cs n ctx =
      (add_const_color ctx' (n - 1) (prepareColor p cs (n - 1)))\<lparr> stopCount := n \<rparr>"
    unfolding evenly_spaced_stops_def Let_def f fst_conv snd_conv ..
  show "stopCount (evenly_spaced_stops p cs n ctx) = n" by (simp add: e)
  show "\<forall>i < n - 1.
           fs (evenly_spaced_stops p cs n ctx) i =
             Some (Sk4f_mul (Sk4f_sub (prepareColor p cs (i + 1)) (prepareColor p cs i))
                            (Sk4f_splat (real (n - 1))))
         \<and> bs (evenly_spaced_stops p cs n ctx) i =
             Some (Sk4f_sub (prepareColor p cs i)
                 (Sk4f_mul (Sk4f_mul (Sk4f_sub (prepareColor p cs (i + 1)) (prepareColor p cs i))
                                     (Sk4f_splat (real (n - 1))))
                           (Sk4f_splat (real i / real (n - 1)))))"
    using lo by (simp add: e add_const_color_def add_stop_color_def)
  show "fs (evenly_spaced_stops p cs n ctx) (n - 1) = Some (Sk4f 0 0 0 0)"
    by (simp add: e add_const_color_def add_stop_color_def)
  show "bs (evenly_spaced_stops p cs n ctx) (n - 1) = Some (prepareColor p cs (n - 1))"
    by (simp add: e add_const_color_def add_stop_color_def)
qed

lemma eval_evenly_beyond_1:
  assumes n: "1 < n" and t: "1 \<le> t"
  shows "eval_evenly_spaced_gradient (evenly_spaced_stops p cs n ctx) t
           = Some (prepareColor p cs (n - 1))"
proof -
  have n0: "0 < n" using n by simp
  note P = evenly_spaced_stops_props [OF n0, of p cs ctx]
  have "real (n - 1) / real (n - 1) \<le> t" using n t by simp
  then have seg: "segment_at (\<lambda>i. real i / real (n - 1)) n t = Some (n - 1)"
    by (intro segment_at_last [OF n0])
  show ?thesis
    unfolding eval_evenly_spaced_gradient_def P(1) seg option.case P(3) P(4) stop_color_const ..
qed


lemma prepareColor_explicit:
  "prepareColor p cs i =
     (if p then Sk4f (fR (cs ! i) * fA (cs ! i)) (fG (cs ! i) * fA (cs ! i))
                     (fB (cs ! i) * fA (cs ! i)) (fA (cs ! i))
      else Sk4f (fR (cs ! i)) (fG (cs ! i)) (fB (cs ! i)) (fA (cs ! i)))"
  by (simp add: prepareColor_def premul_def Load_def Let_def)

lemma Sk4f_factor_explicit:
  "Sk4f_mul (Sk4f_sub x y) (Sk4f_splat k) =
     Sk4f ((chR x - chR y) * k) ((chG x - chG y) * k) ((chB x - chB y) * k) ((chA x - chA y) * k)"
  by (cases x; cases y) (simp add: Sk4f_splat_def)

lemma Sk4f_bias_explicit:
  "Sk4f_sub y (Sk4f_mul (Sk4f_mul (Sk4f_sub x y) (Sk4f_splat k)) (Sk4f_splat r)) =
     Sk4f (chR y - (chR x - chR y) * k * r) (chG y - (chG x - chG y) * k * r)
          (chB y - (chB x - chB y) * k * r) (chA y - (chA x - chA y) * k * r)"
  by (cases x; cases y) (simp add: Sk4f_splat_def)

text \<open>
  C7. Without a position array and with more than two colours, \<^verbatim>\<open>onAppendStages\<close> appends
  the evenly spaced stage with \<open>n\<close> stops. Let \<open>c[i]\<close> be colour \<open>i\<close> with R, G and B
  multiplied by alpha when the premul flag is set, and colour \<open>i\<close> as it is otherwise. For
  each stop \<open>i < n - 1\<close> and each channel the factor is \<open>(c[i+1] - c[i]) * (n-1)\<close> and the
  bias \<open>c[i] - factor * (i/(n-1))\<close>. Stop \<open>n - 1\<close> has factor 0 and bias \<open>c[n-1]\<close>, so its
  colour \<open>F*t + B\<close> is \<open>c[n-1]\<close> at every \<open>t\<close>, and the segment lookup of the spec returns it
  for every \<open>t \<ge> 1\<close>.
\<close>

theorem evenly_spaced_coefficients:
  fixes premulFlag :: "8 word" and g :: GradientShaderBase and cs :: "SkColor4f list"
  defines "c \<equiv> \<lambda>i. if fShaderGradFlags g AND premulFlag \<noteq> 0
                     then Sk4f (fR (cs ! i) * fA (cs ! i)) (fG (cs ! i) * fA (cs ! i))
                               (fB (cs ! i) * fA (cs ! i)) (fA (cs ! i))
                     else Sk4f (fR (cs ! i)) (fG (cs ! i)) (fB (cs ! i)) (fA (cs ! i))"
    and "n \<equiv> fColorCount g"
  assumes "fOrigPos g = None" and "2 < fColorCount g"
  shows "\<exists>ctx. onAppendStages premulFlag g cs = Inr (evenly_spaced_gradient ctx)
     \<and> stopCount ctx = n
     \<and> (\<forall>i < n - 1.
           fs ctx i = Some (Sk4f ((chR (c (i + 1)) - chR (c i)) * real (n - 1))
                                 ((chG (c (i + 1)) - chG (c i)) * real (n - 1))
                                 ((chB (c (i + 1)) - chB (c i)) * real (n - 1))
                                 ((chA (c (i + 1)) - chA (c i)) * real (n - 1)))
         \<and> bs ctx i = Some (Sk4f
              (chR (c i) - (chR (c (i + 1)) - chR (c i)) * real (n - 1) * (real i / real (n - 1)))
              (chG (c i) - (chG (c (i + 1)) - chG (c i)) * real (n - 1) * (real i / real (n - 1)))
              (chB (c i) - (chB (c (i + 1)) - chB (c i)) * real (n - 1) * (real i / real (n - 1)))
              (chA (c i) - (chA (c (i + 1)) - chA (c i)) * real (n - 1) * (real i / real (n - 1)))))
     \<and> fs ctx (n - 1) = Some (Sk4f 0 0 0 0)
     \<and> bs ctx (n - 1) = Some (c (n - 1))
     \<and> (\<forall>t. stop_color (Sk4f 0 0 0 0) (c (n - 1)) t = c (n - 1))
     \<and> (\<forall>t \<ge> 1. eval_evenly_spaced_gradient ctx t = Some (c (n - 1)))"
proof -
  let ?p = "fShaderGradFlags g AND premulFlag \<noteq> 0"
  let ?ctx = "evenly_spaced_stops ?p cs (fColorCount g) new_ctx"
  have c: "c = prepareColor ?p cs"
    unfolding c_def by (rule ext) (simp only: prepareColor_explicit)
  have n0: "0 < fColorCount g" and n1: "1 < fColorCount g" using assms(4) by simp_all
  note P = evenly_spaced_stops_props [OF n0, of ?p cs new_ctx]
  have "onAppendStages premulFlag g cs = Inr (evenly_spaced_gradient ?ctx)"
    using assms(3,4) by (simp add: onAppendStages_def Let_def)
  moreover have "stopCount ?ctx = n" unfolding n_def by (rule P(1))
  moreover have "\<forall>i < n - 1.
           fs ?ctx i = Some (Sk4f ((chR (c (i + 1)) - chR (c i)) * real (n - 1))
                                 ((chG (c (i + 1)) - chG (c i)) * real (n - 1))
                                 ((chB (c (i + 1)) - chB (c i)) * real (n - 1))
                                 ((chA (c (i + 1)) - chA (c i)) * real (n - 1)))
         \<and> bs ?ctx i = Some (Sk4f
              (chR (c i) - (chR (c (i + 1)) - chR (c i)) * real (n - 1) * (real i / real (n - 1)))
              (chG (c i) - (chG (c (i + 1)) - chG (c i)) * real (n - 1) * (real i / real (n - 1)))
              (chB (c i) - (chB (c (i + 1)) - chB (c i)) * real (n - 1) * (real i / real (n - 1)))
              (chA (c i) - (chA (c (i + 1)) - chA (c i)) * real (n - 1) * (real i / real (n - 1))))"
    unfolding n_def c
    by (rule P(2) [unfolded Sk4f_bias_explicit, unfolded Sk4f_factor_explicit])
  moreover have "fs ?ctx (n - 1) = Some (Sk4f 0 0 0 0)" unfolding n_def by (rule P(3))
  moreover have "bs ?ctx (n - 1) = Some (c (n - 1))" unfolding n_def c by (rule P(4))
  moreover have "\<forall>t. stop_color (Sk4f 0 0 0 0) (c (n - 1)) t = c (n - 1)"
    by (simp add: stop_color_const)
  moreover have "\<forall>t \<ge> 1. eval_evenly_spaced_gradient ?ctx t = Some (c (n - 1))"
    unfolding n_def c using eval_evenly_beyond_1 [OF n1, of _ ?p cs new_ctx] by blast
  ultimately show ?thesis by blast
qed

theorem evenly_spaced_coefficients_witness:
  "fOrigPos \<lparr> fColorCount = 3,
       fOrigColors4f = [\<lparr>fR = 1, fG = 0, fB = 0, fA = 1\<rparr>, \<lparr>fR = 0, fG = 1, fB = 0, fA = 1/2\<rparr>,
                        \<lparr>fR = 0, fG = 0, fB = 1, fA = 1/2\<rparr>],
       fOrigPos = None, fColorsAreOpaque = False, fShaderTileMode = kClamp_TileMode,
       fShaderGradFlags = 1 \<rparr> = None
   \<and> (2::nat) < 3
   \<and> (\<exists>ctx. onAppendStages 1
          \<lparr> fColorCount = 3,
            fOrigColors4f = [\<lparr>fR = 1, fG = 0, fB = 0, fA = 1\<rparr>, \<lparr>fR = 0, fG = 1, fB = 0, fA = 1/2\<rparr>,
                             \<lparr>fR = 0, fG = 0, fB = 1, fA = 1/2\<rparr>],
            fOrigPos = None, fColorsAreOpaque = False, fShaderTileMode = kClamp_TileMode,
            fShaderGradFlags = 1 \<rparr>
          [\<lparr>fR = 1, fG = 0, fB = 0, fA = 1\<rparr>, \<lparr>fR = 0, fG = 1, fB = 0, fA = 1/2\<rparr>,
           \<lparr>fR = 0, fG = 0, fB = 1, fA = 1/2\<rparr>] = Inr (evenly_spaced_gradient ctx)
        \<and> stopCount ctx = 3
        \<and> fs ctx 0 = Some (Sk4f (-2) 1 0 (-1))
        \<and> bs ctx 0 = Some (Sk4f 1 0 0 1)
        \<and> fs ctx 1 = Some (Sk4f 0 (-1) 1 0)
        \<and> bs ctx 1 = Some (Sk4f 0 1 (-1/2) (1/2))
        \<and> fs ctx 2 = Some (Sk4f 0 0 0 0)
        \<and> bs ctx 2 = Some (Sk4f 0 0 (1/2) (1/2))
        \<and> eval_evenly_spaced_gradient ctx 1 = Some (Sk4f 0 0 (1/2) (1/2)))"
proof -
  let ?g = "\<lparr> fColorCount = 3,
            fOrigColors4f = [\<lparr>fR = 1, fG = 0, fB = 0, fA = 1\<rparr>, \<lparr>fR = 0, fG = 1, fB = 0, fA = 1/2\<rparr>,
                             \<lparr>fR = 0, fG = 0, fB = 1, fA = 1/2\<rparr>],
            fOrigPos = None, fColorsAreOpaque = False, fShaderTileMode = kClamp_TileMode,
            fShaderGradFlags = 1 \<rparr>"
  let ?cs = "[\<lparr>fR = 1, fG = 0, fB = 0, fA = 1\<rparr>, \<lparr>fR = 0, fG = 1, fB = 0, fA = 1/2\<rparr>,
           \<lparr>fR = 0, fG = 0, fB = 1, fA = 1/2\<rparr>]"
  have h1: "fOrigPos ?g = None" by simp
  have h2: "2 < fColorCount ?g" by simp
  have two: "\<And>P. (\<forall>i < (2::nat). P i) = (P 0 \<and> P 1)"
    by (auto simp add: less_Suc_eq numeral_2_eq_2)
  from evenly_spaced_coefficients [OF h1 h2, of 1 ?cs]
  show ?thesis by (auto simp add: two)
qed

lemma segment_at_2:
  "segment_at (\<lambda>i. real i / real (2 - 1)) 2 t =
     (if 1 \<le> t then Some 1 else if 0 \<le> t then Some 0 else None)"
proof -
  have "rev [0..<2] = [1, 0]" by (simp add: upt_rec)
  then show ?thesis by (simp add: segment_at_def)
qed

lemma two_stop_eval:
  assumes t: "0 \<le> t" "t \<le> 1"
  shows "eval_evenly_spaced_gradient (evenly_spaced_stops p cs 2 new_ctx) t =
           Some (eval_evenly_spaced_2_stop_gradient
                   (Sk4f_sub (prepareColor p cs 1) (prepareColor p cs 0)) (prepareColor p cs 0) t)"
proof -
  have n0: "0 < (2::nat)" by simp
  note P = evenly_spaced_stops_props [OF n0, of p cs new_ctx]
  have f0: "fs (evenly_spaced_stops p cs 2 new_ctx) 0 =
             Some (Sk4f_mul (Sk4f_sub (prepareColor p cs 1) (prepareColor p cs 0)) (Sk4f_splat 1))"
    and b0: "bs (evenly_spaced_stops p cs 2 new_ctx) 0 =
             Some (Sk4f_sub (prepareColor p cs 0)
                 (Sk4f_mul (Sk4f_mul (Sk4f_sub (prepareColor p cs 1) (prepareColor p cs 0))
                                     (Sk4f_splat 1))
                           (Sk4f_splat 0)))"
    using P(2) by simp_all
  have f1: "fs (evenly_spaced_stops p cs 2 new_ctx) 1 = Some (Sk4f 0 0 0 0)"
    and b1: "bs (evenly_spaced_stops p cs 2 new_ctx) 1 = Some (prepareColor p cs 1)"
    using P(3) P(4) by simp_all
  have seg: "segment_at (\<lambda>i. real i / real (stopCount (evenly_spaced_stops p cs 2 new_ctx) - 1))
               (stopCount (evenly_spaced_stops p cs 2 new_ctx)) t
             = (if 1 \<le> t then Some 1 else Some 0)"
    unfolding P(1) segment_at_2 using t by simp
  show ?thesis
  proof (cases "1 \<le> t")
    case True
    with t have t1: "t = 1" by simp
    have seg1: "segment_at (\<lambda>i. real i / real (stopCount (evenly_spaced_stops p cs 2 new_ctx) - 1))
               (stopCount (evenly_spaced_stops p cs 2 new_ctx)) t = Some 1"
      using seg True by simp
    have "Some (stop_color (Sk4f 0 0 0 0) (prepareColor p cs 1) t) =
            Some (eval_evenly_spaced_2_stop_gradient
                   (Sk4f_sub (prepareColor p cs 1) (prepareColor p cs 0)) (prepareColor p cs 0) t)"
      unfolding t1
      by (cases "prepareColor p cs 0"; cases "prepareColor p cs 1")
         (simp add: stop_color_def eval_evenly_spaced_2_stop_gradient_def Sk4f_splat_def)
    then show ?thesis
      unfolding eval_evenly_spaced_gradient_def seg1 option.case f1 b1 .
  next
    case False
    have seg0: "segment_at (\<lambda>i. real i / real (stopCount (evenly_spaced_stops p cs 2 new_ctx) - 1))
               (stopCount (evenly_spaced_stops p cs 2 new_ctx)) t = Some 0"
      using seg False by simp
    have "Some (stop_color
                  (Sk4f_mul (Sk4f_sub (prepareColor p cs 1) (prepareColor p cs 0)) (Sk4f_splat 1))
                  (Sk4f_sub (prepareColor p cs 0)
                     (Sk4f_mul (Sk4f_mul (Sk4f_sub (prepareColor p cs 1) (prepareColor p cs 0))
                                         (Sk4f_splat 1))
                               (Sk4f_splat 0))) t) =
            Some (eval_evenly_spaced_2_stop_gradient
                   (Sk4f_sub (prepareColor p cs 1) (prepareColor p cs 0)) (prepareColor p cs 0) t)"
      by (cases "prepareColor p cs 0"; cases "prepareColor p cs 1")
         (simp add: stop_color_def eval_evenly_spaced_2_stop_gradient_def Sk4f_splat_def)
    then show ?thesis
      unfolding eval_evenly_spaced_gradient_def seg0 option.case f0 b0 .
  qed
qed

text \<open>
  C6. With two colours and no position array, \<^verbatim>\<open>onAppendStages\<close> appends the two-stop
  stage with factor \<open>c1 - c0\<close> and bias \<open>c0\<close>. At each \<open>t\<close> of \<open>0, 0.25, 0.5, 0.75, 1\<close> its
  colour \<open>F*t + B\<close> equals the colour that the evenly spaced stage gives on the stops that
  the general loop derives for the same two colours. In exact arithmetic the two are equal,
  not only close.
\<close>

theorem two_stop_fast_path_equivalence:
  fixes premulFlag :: "8 word" and g :: GradientShaderBase and cs :: "SkColor4f list"
  defines "p \<equiv> (fShaderGradFlags g AND premulFlag \<noteq> 0)"
  assumes "fColorCount g = 2" and "fOrigPos g = None"
  shows "\<exists>F B. onAppendStages premulFlag g cs = Inr (evenly_spaced_2_stop_gradient F B)
     \<and> F = Sk4f_sub (prepareColor p cs 1) (prepareColor p cs 0)
     \<and> B = prepareColor p cs 0
     \<and> (\<forall>t \<in> {0, 1/4, 1/2, 3/4, 1}.
           eval_evenly_spaced_gradient (evenly_spaced_stops p cs 2 new_ctx) t
             = Some (eval_evenly_spaced_2_stop_gradient F B t))"
proof -
  have "onAppendStages premulFlag g cs =
          Inr (evenly_spaced_2_stop_gradient
                 (Sk4f_sub (prepareColor p cs 1) (prepareColor p cs 0)) (prepareColor p cs 0))"
    using assms(2,3) unfolding p_def by (simp add: onAppendStages_def Let_def)
  moreover have "\<forall>t \<in> {0, 1/4, 1/2, 3/4, 1}.
           eval_evenly_spaced_gradient (evenly_spaced_stops p cs 2 new_ctx) t
             = Some (eval_evenly_spaced_2_stop_gradient
                   (Sk4f_sub (prepareColor p cs 1) (prepareColor p cs 0)) (prepareColor p cs 0) t)"
    using two_stop_eval [of _ p cs] by auto
  ultimately show ?thesis by blast
qed

theorem two_stop_fast_path_equivalence_witness:
  "fColorCount \<lparr> fColorCount = 2,
       fOrigColors4f = [\<lparr>fR = 1, fG = 0, fB = 0, fA = 1\<rparr>, \<lparr>fR = 0, fG = 0, fB = 1, fA = 1/2\<rparr>],
       fOrigPos = None, fColorsAreOpaque = False, fShaderTileMode = kClamp_TileMode,
       fShaderGradFlags = 1 \<rparr> = 2
   \<and> fOrigPos \<lparr> fColorCount = 2,
       fOrigColors4f = [\<lparr>fR = 1, fG = 0, fB = 0, fA = 1\<rparr>, \<lparr>fR = 0, fG = 0, fB = 1, fA = 1/2\<rparr>],
       fOrigPos = None, fColorsAreOpaque = False, fShaderTileMode = kClamp_TileMode,
       fShaderGradFlags = 1 \<rparr> = None
   \<and> (1/4 :: real) \<in> {0, 1/4, 1/2, 3/4, 1}
   \<and> onAppendStages 1
        \<lparr> fColorCount = 2,
          fOrigColors4f = [\<lparr>fR = 1, fG = 0, fB = 0, fA = 1\<rparr>, \<lparr>fR = 0, fG = 0, fB = 1, fA = 1/2\<rparr>],
          fOrigPos = None, fColorsAreOpaque = False, fShaderTileMode = kClamp_TileMode,
          fShaderGradFlags = 1 \<rparr>
        [\<lparr>fR = 1, fG = 0, fB = 0, fA = 1\<rparr>, \<lparr>fR = 0, fG = 0, fB = 1, fA = 1/2\<rparr>]
      = Inr (evenly_spaced_2_stop_gradient (Sk4f (-1) 0 (1/2) (-1/2)) (Sk4f 1 0 0 1))
   \<and> eval_evenly_spaced_gradient
        (evenly_spaced_stops True
           [\<lparr>fR = 1, fG = 0, fB = 0, fA = 1\<rparr>, \<lparr>fR = 0, fG = 0, fB = 1, fA = 1/2\<rparr>] 2 new_ctx) (1/4)
      = Some (eval_evenly_spaced_2_stop_gradient (Sk4f (-1) 0 (1/2) (-1/2)) (Sk4f 1 0 0 1) (1/4))"
  using two_stop_fast_path_equivalence [of
      "\<lparr> fColorCount = 2,
          fOrigColors4f = [\<lparr>fR = 1, fG = 0, fB = 0, fA = 1\<rparr>, \<lparr>fR = 0, fG = 0, fB = 1, fA = 1/2\<rparr>],
          fOrigPos = None, fColorsAreOpaque = False, fShaderTileMode = kClamp_TileMode,
          fShaderGradFlags = 1 \<rparr>" 1
      "[\<lparr>fR = 1, fG = 0, fB = 0, fA = 1\<rparr>, \<lparr>fR = 0, fG = 0, fB = 1, fA = 1/2\<rparr>]"]
  by (simp add: prepareColor_def premul_def)

subsection \<open>Arbitrary stops\<close>

lemma init_stop_pos_ok:
  "t_l < t_r \<Longrightarrow> \<exists>ctx'. init_stop_pos ctx stop t_l t_r c_l c_r = Inr ctx'"
  by (simp add: init_stop_pos_def Let_def)

lemma pos_loop_upt:
  "\<exists>ctx' c'. pos_loop p cs ps [a..<b] (ctx, k, ps ! a, c) =
      Inr (ctx', k + length (filter (\<lambda>i. ps ! i < ps ! (i + 1)) [a..<b]),
           ps ! (if a \<le> b then b else a), c')"
proof (induction "b - a" arbitrary: a ctx k c)
  case 0
  then have ba: "b \<le> a" by simp
  have e: "[a..<b] = []" using ba by simp
  have t: "ps ! (if a \<le> b then b else a) = ps ! a" using ba by auto
  show ?case unfolding e t by simp
next
  case (Suc d)
  then have ab: "a < b" and d: "d = b - Suc a" by simp_all
  have upt: "[a..<b] = a # [Suc a..<b]" using ab by (rule upt_conv_Cons)
  have tgt: "ps ! (if Suc a \<le> b then b else Suc a) = ps ! (if a \<le> b then b else a)"
    using ab by simp
  show ?case
  proof (cases "ps ! a < ps ! (a + 1)")
    case True
    from init_stop_pos_ok [OF True] obtain ctx1 where
      i: "init_stop_pos ctx k (ps ! a) (ps ! (a + 1)) c (prepareColor p cs (a + 1)) = Inr ctx1"
      by blast
    from Suc.hyps(1) [OF d, of ctx1 "k + 1" "prepareColor p cs (a + 1)"]
    obtain ctx' c' where
      "pos_loop p cs ps [Suc a..<b] (ctx1, k + 1, ps ! Suc a, prepareColor p cs (a + 1)) =
         Inr (ctx', k + 1 + length (filter (\<lambda>i. ps ! i < ps ! (i + 1)) [Suc a..<b]),
              ps ! (if Suc a \<le> b then b else Suc a), c')"
      by blast
    then show ?thesis
      unfolding upt tgt using True i by (simp add: Let_def)
  next
    case False
    from Suc.hyps(1) [OF d, of ctx k "prepareColor p cs (a + 1)"]
    obtain ctx' c' where
      "pos_loop p cs ps [Suc a..<b] (ctx, k, ps ! Suc a, prepareColor p cs (a + 1)) =
         Inr (ctx', k + length (filter (\<lambda>i. ps ! i < ps ! (i + 1)) [Suc a..<b]),
              ps ! (if Suc a \<le> b then b else Suc a), c')"
      by blast
    then show ?thesis
      unfolding upt tgt using False by (simp add: Let_def)
  qed
qed

lemma arbitrary_stops_ok:
  "\<exists>ctx'. arbitrary_stops p cs g ps ctx = Inr ctx'
     \<and> stopCount ctx' = 2 + length (filter (\<lambda>i. ps ! i < ps ! (i + 1)) [firstStop g..<lastStop g])"
proof -
  from pos_loop_upt [of p cs ps "firstStop g" "lastStop g"
      "add_const_color ctx 0 (prepareColor p cs (firstStop g))" 1 "prepareColor p cs (firstStop g)"]
  obtain ctx1 c' where
    "pos_loop p cs ps [firstStop g..<lastStop g]
        (add_const_color ctx 0 (prepareColor p cs (firstStop g)), 1, ps ! firstStop g,
         prepareColor p cs (firstStop g)) =
      Inr (ctx1, 1 + length (filter (\<lambda>i. ps ! i < ps ! (i + 1)) [firstStop g..<lastStop g]),
           ps ! (if firstStop g \<le> lastStop g then lastStop g else firstStop g), c')"
    by blast
  then show ?thesis
    by (simp add: arbitrary_stops_def Let_def)
qed

text \<open>
  C5. \<^verbatim>\<open>onAppendStages\<close> never reaches a division by a zero width, whatever the shader
  and the colours. With a position array it appends the general stage, and the number of
  its stops is 2 (the constant stops at both ends) plus the number of consecutive pairs
  between \<^verbatim>\<open>firstStop\<close> and \<^verbatim>\<open>lastStop\<close> whose left position is strictly below the right
  one: a pair of equal positions gets no segment. The positions \<open>{0, 0, 1}\<close> are a case
  of this.
\<close>

theorem arbitrary_stops_no_zero_width:
  "onAppendStages premulFlag g cs \<noteq> Inl ZeroWidthSegment
   \<and> (\<forall>ps. fOrigPos g = Some ps \<longrightarrow>
         (\<exists>ctx. onAppendStages premulFlag g cs = Inr (gradient ctx)
            \<and> stopCount ctx =
                2 + length (filter (\<lambda>i. ps ! i < ps ! (i + 1)) [firstStop g..<lastStop g])))
   \<and> (fOrigPos g = Some [0, 0, 1] \<longrightarrow>
         (\<exists>ctx. onAppendStages premulFlag g cs = Inr (gradient ctx)))"
proof -
  let ?p = "fShaderGradFlags g AND premulFlag \<noteq> 0"
  have some: "\<exists>ctx. onAppendStages premulFlag g cs = Inr (gradient ctx)
            \<and> stopCount ctx =
                2 + length (filter (\<lambda>i. ps ! i < ps ! (i + 1)) [firstStop g..<lastStop g])"
    if "fOrigPos g = Some ps" for ps
  proof -
    from arbitrary_stops_ok [of ?p cs g ps new_ctx] obtain ctx' where
      "arbitrary_stops ?p cs g ps new_ctx = Inr ctx'"
      "stopCount ctx' = 2 + length (filter (\<lambda>i. ps ! i < ps ! (i + 1)) [firstStop g..<lastStop g])"
      by blast
    with that show ?thesis by (simp add: onAppendStages_def Let_def)
  qed
  have "onAppendStages premulFlag g cs \<noteq> Inl ZeroWidthSegment"
  proof (cases "fOrigPos g")
    case None
    then show ?thesis by (simp add: onAppendStages_def Let_def)
  next
    case (Some ps)
    from some [OF this] show ?thesis by auto
  qed
  with some show ?thesis by blast
qed

theorem arbitrary_stops_no_zero_width_witness:
  "fOrigPos \<lparr> fColorCount = 3,
       fOrigColors4f = [\<lparr>fR = 1, fG = 0, fB = 0, fA = 1\<rparr>, \<lparr>fR = 0, fG = 1, fB = 0, fA = 1\<rparr>,
                        \<lparr>fR = 0, fG = 0, fB = 1, fA = 1\<rparr>],
       fOrigPos = Some [0, 0, 1], fColorsAreOpaque = True, fShaderTileMode = kClamp_TileMode,
       fShaderGradFlags = 0 \<rparr> = Some [0, 0, 1]
   \<and> (\<exists>ctx. onAppendStages 1
          \<lparr> fColorCount = 3,
            fOrigColors4f = [\<lparr>fR = 1, fG = 0, fB = 0, fA = 1\<rparr>, \<lparr>fR = 0, fG = 1, fB = 0, fA = 1\<rparr>,
                             \<lparr>fR = 0, fG = 0, fB = 1, fA = 1\<rparr>],
            fOrigPos = Some [0, 0, 1], fColorsAreOpaque = True, fShaderTileMode = kClamp_TileMode,
            fShaderGradFlags = 0 \<rparr>
          [\<lparr>fR = 1, fG = 0, fB = 0, fA = 1\<rparr>, \<lparr>fR = 0, fG = 1, fB = 0, fA = 1\<rparr>,
           \<lparr>fR = 0, fG = 0, fB = 1, fA = 1\<rparr>] = Inr (gradient ctx)
        \<and> stopCount ctx = 3)"
  using arbitrary_stops_no_zero_width [of 1
      "\<lparr> fColorCount = 3,
            fOrigColors4f = [\<lparr>fR = 1, fG = 0, fB = 0, fA = 1\<rparr>, \<lparr>fR = 0, fG = 1, fB = 0, fA = 1\<rparr>,
                             \<lparr>fR = 0, fG = 0, fB = 1, fA = 1\<rparr>],
            fOrigPos = Some [0, 0, 1], fColorsAreOpaque = True, fShaderTileMode = kClamp_TileMode,
            fShaderGradFlags = 0 \<rparr>"
      "[\<lparr>fR = 1, fG = 0, fB = 0, fA = 1\<rparr>, \<lparr>fR = 0, fG = 1, fB = 0, fA = 1\<rparr>,
           \<lparr>fR = 0, fG = 0, fB = 1, fA = 1\<rparr>]"]
  by (auto simp add: firstStop_def lastStop_def upt_rec numeral_3_eq_3)

subsection \<open>Lookup table\<close>

lemma span_loop_outside:
  assumes wr: "\<And>c i bm. wr c i bm = bm(i \<mapsto> e c)"
  shows "k < curIndex \<or> nextIndex < k \<Longrightarrow>
         span_loop ar wr delta nextIndex c0 curIndex bitmap k = bitmap k"
proof (induction "nat (nextIndex + 1 - curIndex)" arbitrary: c0 curIndex bitmap)
  case 0
  then have "\<not> curIndex \<le> nextIndex" by simp
  then show ?case by (subst span_loop.simps) (simp only: if_False)
next
  case (Suc d)
  then have le: "curIndex \<le> nextIndex" and d: "d = nat (nextIndex + 1 - (curIndex + 1))"
    by simp_all
  have out: "k < curIndex + 1 \<or> nextIndex < k" using Suc.prems by auto
  have ne: "k \<noteq> curIndex" using Suc.prems le by auto
  have "span_loop ar wr delta nextIndex c0 curIndex bitmap k =
          span_loop ar wr delta nextIndex (op_add ar c0 delta) (curIndex + 1)
            (wr c0 curIndex bitmap) k"
    using le by (subst span_loop.simps) (simp only: if_True)
  also have "\<dots> = wr c0 curIndex bitmap k"
    by (rule Suc.hyps(1) [OF d out])
  also have "\<dots> = bitmap k" using ne unfolding wr by simp
  finally show ?case .
qed

lemma span_loop_first:
  assumes wr: "\<And>c i bm. wr c i bm = bm(i \<mapsto> e c)" and le: "curIndex \<le> nextIndex"
  shows "span_loop ar wr delta nextIndex c0 curIndex bitmap curIndex = Some (e c0)"
proof -
  have "span_loop ar wr delta nextIndex c0 curIndex bitmap curIndex =
          span_loop ar wr delta nextIndex (op_add ar c0 delta) (curIndex + 1)
            (wr c0 curIndex bitmap) curIndex"
    using le by (subst span_loop.simps) (simp only: if_True)
  also have "\<dots> = wr c0 curIndex bitmap curIndex"
    by (rule span_loop_outside [OF wr]) simp
  also have "\<dots> = Some (e c0)" unfolding wr by simp
  finally show ?thesis .
qed

lemma writePixel_upd:
  "writePixel ar ip ct c i bm =
     bm(i \<mapsto> (if ct = kRGBA_F16_SkColorType then Texel_F16 else Texel_8888)
                (if ip then c else op_mul ar c (Sk4f (chA c) (chA c) (chA c) 1)))"
  by (simp add: writePixel_def writeSizedPixel_def writeUnpremulPixel_def writeF16Pixel_def
        write8888Pixel_def)

lemma fst_bitmap_step: "fst (bitmap_step ar ip ct g colors s i) = stop_index g i"
  by (simp add: bitmap_step_def Let_def)

lemma bitmap_step_keep:
  "k < fst s \<Longrightarrow> snd (bitmap_step ar ip ct g colors s i) k = snd s k"
  by (simp add: bitmap_step_def Let_def span_loop_outside [OF writePixel_upd])

lemma foldl_bitmap_step_keep:
  "k < fst s \<Longrightarrow> \<forall>i \<in> set is. k < stop_index g i \<Longrightarrow>
   snd (foldl (bitmap_step ar ip ct g colors) s is) k = snd s k"
proof (induction "is" arbitrary: s)
  case Nil
  then show ?case by simp
next
  case (Cons i "is")
  have "k < fst (bitmap_step ar ip ct g colors s i)"
    using Cons.prems(2) by (simp add: fst_bitmap_step)
  moreover have "\<forall>i \<in> set is. k < stop_index g i" using Cons.prems(2) by simp
  ultimately have "snd (foldl (bitmap_step ar ip ct g colors) (bitmap_step ar ip ct g colors s i) is) k
      = snd (bitmap_step ar ip ct g colors s i) k"
    by (rule Cons.IH)
  then show ?case using Cons.prems(1) by (simp add: bitmap_step_keep)
qed

lemma bitmap_step_first:
  assumes "fst s < stop_index g i"
  shows "snd (bitmap_step ar ip ct g colors s i) (fst s) =
           Some ((if ct = kRGBA_F16_SkColorType then Texel_F16 else Texel_8888)
                   (op_mul ar (Load (colors ! (i - 1)))
                      (Sk4f (fA (colors ! (i - 1))) (fA (colors ! (i - 1)))
                            (fA (colors ! (i - 1))) 1)))"
proof -
  have a: "\<And>c. chA (Load c) = fA c" by (simp add: Load_def)
  have le: "fst s \<le> stop_index g i" using assms by simp
  show ?thesis
    using assms
    by (simp add: bitmap_step_def Let_def span_loop_first [OF writePixel_upd le] a)
qed


lemma stop_index_floor:
  assumes "0 \<le> getPos g i"
  shows "stop_index g i = min \<lfloor>getPos g i * 256\<rfloor> 255"
proof -
  have "0 \<le> min (getPos g i * 256) 255" using assms by simp
  then have "stop_index g i = \<lfloor>min (getPos g i * 256) 255\<rfloor>"
    by (simp add: stop_index_def float_to_int_def kGradientTextureSize_def)
  also have "\<dots> = min \<lfloor>getPos g i * 256\<rfloor> 255"
  proof (cases "getPos g i * 256 \<le> 255")
    case True
    then have "\<lfloor>getPos g i * 256\<rfloor> \<le> 255" by (simp add: floor_le_iff)
    with True show ?thesis by (simp add: min_def)
  next
    case False
    then have lt: "255 \<le> getPos g i * 256" by simp
    then have "255 \<le> \<lfloor>getPos g i * 256\<rfloor>" by (simp add: le_floor_iff)
    then have r: "min \<lfloor>getPos g i * 256\<rfloor> 255 = 255" by simp
    from lt have "min (getPos g i * 256) 255 = 255" by simp
    then show ?thesis unfolding r by simp
  qed
  finally show ?thesis .
qed

lemma stop_index_mono:
  assumes "0 \<le> getPos g i" and "getPos g i \<le> getPos g j"
  shows "stop_index g i \<le> stop_index g j"
proof -
  have "0 \<le> getPos g j" using assms by simp
  then show ?thesis
    unfolding stop_index_floor [OF assms(1)] stop_index_floor [OF \<open>0 \<le> getPos g j\<close>]
    using assms(2) by (intro min.mono floor_mono) simp_all
qed

lemma initLinearBitmap_texel_0:
  assumes n: "2 \<le> fColorCount g"
    and p0: "getPos g 0 = 0"
    and mono: "\<forall>i j. i \<le> j \<and> j < fColorCount g \<longrightarrow> getPos g i \<le> getPos g j"
    and one: "1 \<le> stop_index g 1"
  shows "initLinearBitmap ar premulFlag g colors Map.empty colorType 0 =
           Some ((if colorType = kRGBA_F16_SkColorType then Texel_F16 else Texel_8888)
                   (op_mul ar (Load (colors ! 0))
                      (Sk4f (fA (colors ! 0)) (fA (colors ! 0)) (fA (colors ! 0)) 1)))"
proof -
  let ?ip = "fShaderGradFlags g AND premulFlag \<noteq> 0"
  let ?step = "bitmap_step ar ?ip colorType g colors"
  let ?s1 = "?step (0, Map.empty) 1"
  have upt: "[1..<fColorCount g] = 1 # [Suc 1..<fColorCount g]"
    by (rule upt_conv_Cons) (use n in simp)
  have pos1: "0 \<le> getPos g 1" using mono p0 n by (metis One_nat_def Suc_1 Suc_le_lessD zero_le)
  have later: "\<forall>i \<in> set [Suc 1..<fColorCount g]. 0 < stop_index g i"
  proof
    fix i assume "i \<in> set [Suc 1..<fColorCount g]"
    then have i: "1 \<le> i" "i < fColorCount g" by simp_all
    then have "getPos g 1 \<le> getPos g i" using mono by blast
    from stop_index_mono [OF pos1 this] one show "0 < stop_index g i" by simp
  qed
  have f1: "0 < fst ?s1" using one by (simp add: fst_bitmap_step)
  have "initLinearBitmap ar premulFlag g colors Map.empty colorType 0
          = snd (foldl ?step ?s1 [Suc 1..<fColorCount g]) 0"
    unfolding initLinearBitmap_def Let_def upt by simp
  also have "\<dots> = snd ?s1 0"
    by (rule foldl_bitmap_step_keep [OF f1 later])
  also have "\<dots> = Some ((if colorType = kRGBA_F16_SkColorType then Texel_F16 else Texel_8888)
                   (op_mul ar (Load (colors ! 0))
                      (Sk4f (fA (colors ! 0)) (fA (colors ! 0)) (fA (colors ! 0)) 1)))"
    using bitmap_step_first [of "(0, Map.empty)" g 1 ar ?ip colorType colors] one by simp
  finally show ?thesis .
qed

lemma two_powi_less_imp:
  assumes "(2::real) powi a < 2 powi b"
  shows "a < b"
proof (rule ccontr)
  assume "\<not> a < b"
  then have "b \<le> a" by simp
  then have "(2::real) powi b \<le> 2 powi a" by (rule power_int_increasing) simp
  with assms show False by simp
qed

lemma float_exponent_from_eq:
  "2 powi e \<le> a \<Longrightarrow> a < 2 powi (e + 1) \<Longrightarrow> -126 \<le> e \<Longrightarrow> e \<le> int n - 126 \<Longrightarrow>
   float_exponent_from n a = e"
proof (induction n)
  case 0
  then show ?case by simp
next
  case (Suc n)
  show ?case
  proof (cases "2 powi (int n - 125) \<le> a")
    case True
    then have "(2::real) powi (int n - 125) < 2 powi (e + 1)" using Suc.prems(2) by simp
    then have "int n - 125 < e + 1" by (rule two_powi_less_imp)
    with Suc.prems(4) True show ?thesis by simp
  next
    case False
    then have "(2::real) powi e < 2 powi (int n - 125)" using Suc.prems(1) by simp
    then have "e < int n - 125" by (rule two_powi_less_imp)
    then have "e \<le> int n - 126" by simp
    from Suc.IH [OF Suc.prems(1,2,3) this] False show ?thesis by simp
  qed
qed

lemma round32_eq:
  assumes "2 powi e \<le> \<bar>x\<bar>" and "\<bar>x\<bar> < 2 powi (e + 1)" and "-126 \<le> e" and "e \<le> 127"
  shows "round32 x = of_int (round_half_even (x / 2 powi (e - 23))) * 2 powi (e - 23)"
proof -
  have "float_exponent \<bar>x\<bar> = e"
    unfolding float_exponent_def by (rule float_exponent_from_eq) (use assms in simp_all)
  then show ?thesis by (simp add: round32_def Let_def)
qed

lemma round32_0: "round32 0 = 0"
  by (simp add: round32_def round_half_even_def)


lemma span_loop_texel:
  assumes wr: "\<And>c i bm. wr c i bm = bm(i \<mapsto> e c)"
  shows "curIndex \<le> k \<Longrightarrow> k \<le> nextIndex \<Longrightarrow>
         span_loop ar wr delta nextIndex c0 curIndex bitmap k =
           Some (e (((\<lambda>c. op_add ar c delta) ^^ nat (k - curIndex)) c0))"
proof (induction "nat (k - curIndex)" arbitrary: c0 curIndex bitmap)
  case 0
  then have k: "k = curIndex" by simp
  show ?case unfolding k using span_loop_first [OF wr] 0 by simp
next
  case (Suc d)
  then have le: "curIndex \<le> nextIndex" and d: "d = nat (k - (curIndex + 1))"
    and lt: "curIndex + 1 \<le> k"
    by simp_all
  have n: "nat (k - curIndex) = Suc (nat (k - (curIndex + 1)))" using lt by simp
  have "span_loop ar wr delta nextIndex c0 curIndex bitmap k =
          span_loop ar wr delta nextIndex (op_add ar c0 delta) (curIndex + 1)
            (wr c0 curIndex bitmap) k"
    using le by (subst span_loop.simps) (simp only: if_True)
  also have "\<dots> = Some (e (((\<lambda>c. op_add ar c delta) ^^ nat (k - (curIndex + 1)))
                              (op_add ar c0 delta)))"
    by (rule Suc.hyps(1) [OF d lt Suc.prems(2)])
  finally show ?case unfolding n funpow_Suc_right o_def .
qed

lemma chA_Load: "chA (Load c) = fA c"
  by (simp add: Load_def)

lemma bitmap_step_last:
  assumes "fst s < stop_index g i"
  shows "snd (bitmap_step ar ip ct g colors s i) (stop_index g i) =
           Some ((if ct = kRGBA_F16_SkColorType then Texel_F16 else Texel_8888)
             (let pm = (\<lambda>c. op_mul ar c (Sk4f (chA c) (chA c) (chA c) 1));
                  c0 = (if ip then pm (Load (colors ! (i - 1))) else Load (colors ! (i - 1)));
                  c1 = (if ip then pm (Load (colors ! i)) else Load (colors ! i));
                  delta = op_mul ar (op_sub ar c1 c0)
                            (Sk4f_splat (op_div ar 1 (real_of_int (stop_index g i - fst s))));
                  c = ((\<lambda>c. op_add ar c delta) ^^ nat (stop_index g i - fst s)) c0
              in if ip then c else pm c))"
proof -
  have le: "fst s \<le> stop_index g i" using assms by simp
  show ?thesis
    using assms
    by (simp add: bitmap_step_def Let_def span_loop_texel [OF writePixel_upd le order_refl]
          del: of_int_diff)
qed

lemma foldl_bitmap_step_fst:
  "fst (foldl (bitmap_step ar ip ct g colors) s is) =
     (if is = [] then fst s else stop_index g (last is))"
  by (induction "is" arbitrary: s) (simp_all add: fst_bitmap_step)

lemma initLinearBitmap_texel_255:
  assumes n: "2 \<le> fColorCount g"
    and p0: "getPos g 0 = 0"
    and p1: "getPos g (fColorCount g - 1) = 1"
    and before: "stop_index g (fColorCount g - 2) < 255"
  shows "initLinearBitmap ar premulFlag g colors Map.empty colorType 255 =
           Some ((if colorType = kRGBA_F16_SkColorType then Texel_F16 else Texel_8888)
             (let ip = (fShaderGradFlags g AND premulFlag \<noteq> 0);
                  k = stop_index g (fColorCount g - 2);
                  pm = (\<lambda>c. op_mul ar c (Sk4f (chA c) (chA c) (chA c) 1));
                  c0 = (if ip then pm (Load (colors ! (fColorCount g - 2)))
                        else Load (colors ! (fColorCount g - 2)));
                  c1 = (if ip then pm (Load (colors ! (fColorCount g - 1)))
                        else Load (colors ! (fColorCount g - 1)));
                  delta = op_mul ar (op_sub ar c1 c0)
                            (Sk4f_splat (op_div ar 1 (real_of_int (255 - k))));
                  c = ((\<lambda>c. op_add ar c delta) ^^ nat (255 - k)) c0
              in if ip then c else pm c))"
proof -
  let ?ip = "fShaderGradFlags g AND premulFlag \<noteq> 0"
  let ?step = "bitmap_step ar ?ip colorType g colors"
  let ?n = "fColorCount g"
  let ?s = "foldl ?step (0, Map.empty) [1..<?n - 1]"
  have upt: "[1..<?n] = [1..<?n - 1] @ [?n - 1]"
  proof -
    from n obtain m where m: "?n = Suc m" "1 \<le> m" by (cases ?n) simp_all
    then show ?thesis by simp
  qed
  have i0: "stop_index g 0 = 0"
    by (simp add: stop_index_def p0 float_to_int_def kGradientTextureSize_def)
  have il: "stop_index g (?n - 1) = 255"
    unfolding stop_index_def p1 by (simp add: float_to_int_def kGradientTextureSize_def)
  have fs: "fst ?s = stop_index g (?n - 2)"
  proof (cases "?n = 2")
    case True
    then show ?thesis by (simp add: i0)
  next
    case False
    with n have "[1..<?n - 1] \<noteq> []" and "last [1..<?n - 1] = ?n - 2" by simp_all
    then show ?thesis unfolding foldl_bitmap_step_fst by simp
  qed
  have lt: "fst ?s < stop_index g (?n - 1)" using before unfolding fs il .
  have m: "?n - 1 - 1 = ?n - 2" by simp
  have "initLinearBitmap ar premulFlag g colors Map.empty colorType 255
          = snd (?step ?s (?n - 1)) (stop_index g (?n - 1))"
    unfolding initLinearBitmap_def Let_def upt foldl_append il by simp
  also note bitmap_step_last [OF lt]
  finally show ?thesis unfolding fs il m Let_def .
qed


lemma round32_half: "round32 (1/2) = 1/2"
  by (subst round32_eq [of "-1"]) (simp_all add: round_half_even_def power_int_minus)

lemma round32_quarter: "round32 (1/4) = 1/4"
  by (subst round32_eq [of "-2"]) (simp_all add: round_half_even_def power_int_minus)

lemma round32_1: "round32 1 = 1"
  by (subst round32_eq [of 0]) (simp_all add: round_half_even_def power_int_minus)

lemma round32_minus_half: "round32 (- (1/2)) = - (1/2)"
  by (subst round32_eq [of "-1"]) (simp_all add: round_half_even_def power_int_minus)

lemma round32_third: "round32 (1/3) = 11184811 / 33554432"
  by (subst round32_eq [of "-2"]) (simp_all add: round_half_even_def power_int_minus)

lemma round32_delta: "round32 (- (11184811 / 67108864)) = - (11184811 / 67108864)"
  by (subst round32_eq [of "-3"]) (simp_all add: round_half_even_def power_int_minus)

lemma round32_acc1: "round32 (55924053 / 67108864) = 13981013 / 16777216"
  by (subst round32_eq [of "-1"]) (simp_all add: round_half_even_def power_int_minus)

lemma round32_acc2: "round32 (44739241 / 67108864) = 11184810 / 16777216"
  by (subst round32_eq [of "-1"]) (simp_all add: round_half_even_def power_int_minus)

lemma round32_acc3: "round32 (33554429 / 67108864) = 8388607 / 16777216"
  by (subst round32_eq [of "-2"]) (simp_all add: round_half_even_def power_int_minus)

lemma round32_last: "round32 (8388607 / 16777216) = 8388607 / 16777216"
  by (subst round32_eq [of "-2"]) (simp_all add: round_half_even_def power_int_minus)

lemmas round32_values = round32_0 round32_half round32_quarter round32_1 round32_minus_half
  round32_third round32_delta round32_acc1 round32_acc2 round32_acc3 round32_last

lemma binary32_last_span:
  "((\<lambda>c. op_add binary32_arith c
            (op_mul binary32_arith
               (op_sub binary32_arith (Sk4f 0 0 0 (1/2)) (Sk4f 0 0 0 1))
               (Sk4f_splat (op_div binary32_arith 1 3)))) ^^ 3) (Sk4f 0 0 0 1)
     = Sk4f 0 0 0 (8388607 / 16777216)"
  by (simp add: binary32_arith_def Sk4f_splat_def round32_values numeral_3_eq_3)


lemma binary32_three_stops_255:
  "initLinearBitmap binary32_arith 1
        \<lparr> fColorCount = 3,
          fOrigColors4f = [\<lparr>fR = 1, fG = 1/2, fB = 0, fA = 1/2\<rparr>, \<lparr>fR = 0, fG = 0, fB = 0, fA = 1\<rparr>,
                           \<lparr>fR = 0, fG = 0, fB = 0, fA = 1/2\<rparr>],
          fOrigPos = Some [0, 63/64, 1], fColorsAreOpaque = False,
          fShaderTileMode = kClamp_TileMode, fShaderGradFlags = 0 \<rparr>
        [\<lparr>fR = 1, fG = 1/2, fB = 0, fA = 1/2\<rparr>, \<lparr>fR = 0, fG = 0, fB = 0, fA = 1\<rparr>,
         \<lparr>fR = 0, fG = 0, fB = 0, fA = 1/2\<rparr>]
        Map.empty kRGBA_8888_SkColorType 255
     = Some (Texel_8888 (Sk4f 0 0 0 (8388607 / 16777216)))"
proof -
  let ?g = "\<lparr> fColorCount = 3,
          fOrigColors4f = [\<lparr>fR = 1, fG = 1/2, fB = 0, fA = 1/2\<rparr>, \<lparr>fR = 0, fG = 0, fB = 0, fA = 1\<rparr>,
                           \<lparr>fR = 0, fG = 0, fB = 0, fA = 1/2\<rparr>],
          fOrigPos = Some [0, 63/64, 1], fColorsAreOpaque = False,
          fShaderTileMode = kClamp_TileMode, fShaderGradFlags = 0 \<rparr>"
  have i1: "stop_index ?g (Suc 0) = 252"
    by (simp add: stop_index_def getPos_def float_to_int_def kGradientTextureSize_def)
  have h1: "2 \<le> fColorCount ?g" by simp
  have h2: "getPos ?g 0 = 0" by (simp add: getPos_def)
  have h3: "getPos ?g (fColorCount ?g - 1) = 1" by (simp add: getPos_def)
  have h4: "stop_index ?g (fColorCount ?g - 2) < 255" by (simp add: i1)
  show ?thesis
    unfolding initLinearBitmap_texel_255 [OF h1 h2 h3 h4]
    by (simp add: i1 Load_def binary32_last_span)
       (simp add: binary32_arith_def round32_values)
qed

text \<open>
  C8, as \<^verbatim>\<open>initLinearBitmap\<close> has it, whatever the rounding of the four float operations.
  For a canonical gradient (at least two stops, positions from 0 to 1 that never decrease)
  the texel index of a stop is the smaller of \<open>\<lfloor>position * 256\<rfloor>\<close> and 255, so the first stop
  has index 0 and the last one index 255. Texel 0 holds the colour of the first stop times
  \<open>(a, a, a, 1)\<close>, \<open>a\<close> its alpha, when the second stop has a texel index of at least 1.
  Texel 255 is written by the span that ends at the last stop when the stop before it has a
  texel index \<open>k\<close> below 255: it holds the colour of that stop after \<open>255 - k\<close> additions of
  the step \<open>(c1 - c0) * (1 / (255 - k))\<close>, premultiplied before the span or after it as the
  interpolation flag says. Each texel is handed to the encoder of the colour type.
\<close>

theorem lookup_table_boundary:
  fixes g :: GradientShaderBase and ar :: float_arith and premulFlag :: "8 word"
    and colors :: "SkColor4f list" and colorType :: SkColorType
  assumes "2 \<le> fColorCount g"
    and "getPos g 0 = 0"
    and "getPos g (fColorCount g - 1) = 1"
    and "\<forall>i j. i \<le> j \<and> j < fColorCount g \<longrightarrow> getPos g i \<le> getPos g j"
  defines "enc \<equiv> if colorType = kRGBA_F16_SkColorType then Texel_F16 else Texel_8888"
    and "pm \<equiv> \<lambda>c. op_mul ar c (Sk4f (chA c) (chA c) (chA c) 1)"
    and "ip \<equiv> fShaderGradFlags g AND premulFlag \<noteq> 0"
    and "k \<equiv> stop_index g (fColorCount g - 2)"
  defines "c0 \<equiv> if ip then pm (Load (colors ! (fColorCount g - 2)))
                 else Load (colors ! (fColorCount g - 2))"
    and "c1 \<equiv> if ip then pm (Load (colors ! (fColorCount g - 1)))
                 else Load (colors ! (fColorCount g - 1))"
  defines "delta \<equiv> op_mul ar (op_sub ar c1 c0)
                      (Sk4f_splat (op_div ar 1 (real_of_int (255 - k))))"
  defines "c \<equiv> ((\<lambda>c. op_add ar c delta) ^^ nat (255 - k)) c0"
  shows "(\<forall>i < fColorCount g. stop_index g i = min \<lfloor>getPos g i * 256\<rfloor> 255)
     \<and> stop_index g 0 = 0
     \<and> stop_index g (fColorCount g - 1) = 255
     \<and> (1 \<le> stop_index g 1 \<longrightarrow>
          initLinearBitmap ar premulFlag g colors Map.empty colorType 0 =
            Some (enc (pm (Load (colors ! 0)))))
     \<and> (k < 255 \<longrightarrow>
          initLinearBitmap ar premulFlag g colors Map.empty colorType 255 =
            Some (enc (if ip then c else pm c)))"
proof -
  have "\<forall>i < fColorCount g. stop_index g i = min \<lfloor>getPos g i * 256\<rfloor> 255"
  proof (intro allI impI)
    fix i assume "i < fColorCount g"
    then have "getPos g 0 \<le> getPos g i" using assms(4) by blast
    then have "0 \<le> getPos g i" using assms(2) by simp
    then show "stop_index g i = min \<lfloor>getPos g i * 256\<rfloor> 255" by (rule stop_index_floor)
  qed
  moreover have "stop_index g 0 = 0"
    by (simp add: stop_index_def assms(2) float_to_int_def kGradientTextureSize_def)
  moreover have "stop_index g (fColorCount g - 1) = 255"
    unfolding stop_index_def assms(3) by (simp add: float_to_int_def kGradientTextureSize_def)
  moreover have "1 \<le> stop_index g 1 \<longrightarrow>
          initLinearBitmap ar premulFlag g colors Map.empty colorType 0 =
            Some (enc (pm (Load (colors ! 0))))"
    using initLinearBitmap_texel_0 [OF assms(1,2,4), of ar premulFlag colors colorType]
    unfolding enc_def pm_def chA_Load by blast
  moreover have "k < 255 \<longrightarrow>
          initLinearBitmap ar premulFlag g colors Map.empty colorType 255 =
            Some (enc (if ip then c else pm c))"
    using initLinearBitmap_texel_255 [OF assms(1,2,3), of ar premulFlag colors colorType]
    unfolding enc_def pm_def ip_def k_def c0_def c1_def delta_def c_def Let_def by blast
  ultimately show ?thesis by blast
qed

theorem lookup_table_boundary_witness:
  "(2::nat) \<le> fColorCount \<lparr> fColorCount = 3,
          fOrigColors4f = [\<lparr>fR = 1, fG = 1/2, fB = 0, fA = 1/2\<rparr>, \<lparr>fR = 0, fG = 0, fB = 0, fA = 1\<rparr>,
                           \<lparr>fR = 0, fG = 0, fB = 0, fA = 1/2\<rparr>],
          fOrigPos = Some [0, 63/64, 1], fColorsAreOpaque = False,
          fShaderTileMode = kClamp_TileMode, fShaderGradFlags = 0 \<rparr>
   \<and> getPos \<lparr> fColorCount = 3,
          fOrigColors4f = [\<lparr>fR = 1, fG = 1/2, fB = 0, fA = 1/2\<rparr>, \<lparr>fR = 0, fG = 0, fB = 0, fA = 1\<rparr>,
                           \<lparr>fR = 0, fG = 0, fB = 0, fA = 1/2\<rparr>],
          fOrigPos = Some [0, 63/64, 1], fColorsAreOpaque = False,
          fShaderTileMode = kClamp_TileMode, fShaderGradFlags = 0 \<rparr> 0 = 0
   \<and> getPos \<lparr> fColorCount = 3,
          fOrigColors4f = [\<lparr>fR = 1, fG = 1/2, fB = 0, fA = 1/2\<rparr>, \<lparr>fR = 0, fG = 0, fB = 0, fA = 1\<rparr>,
                           \<lparr>fR = 0, fG = 0, fB = 0, fA = 1/2\<rparr>],
          fOrigPos = Some [0, 63/64, 1], fColorsAreOpaque = False,
          fShaderTileMode = kClamp_TileMode, fShaderGradFlags = 0 \<rparr> 2 = 1
   \<and> stop_index \<lparr> fColorCount = 3,
          fOrigColors4f = [\<lparr>fR = 1, fG = 1/2, fB = 0, fA = 1/2\<rparr>, \<lparr>fR = 0, fG = 0, fB = 0, fA = 1\<rparr>,
                           \<lparr>fR = 0, fG = 0, fB = 0, fA = 1/2\<rparr>],
          fOrigPos = Some [0, 63/64, 1], fColorsAreOpaque = False,
          fShaderTileMode = kClamp_TileMode, fShaderGradFlags = 0 \<rparr> 1 = 252
   \<and> stop_index \<lparr> fColorCount = 3,
          fOrigColors4f = [\<lparr>fR = 1, fG = 1/2, fB = 0, fA = 1/2\<rparr>, \<lparr>fR = 0, fG = 0, fB = 0, fA = 1\<rparr>,
                           \<lparr>fR = 0, fG = 0, fB = 0, fA = 1/2\<rparr>],
          fOrigPos = Some [0, 63/64, 1], fColorsAreOpaque = False,
          fShaderTileMode = kClamp_TileMode, fShaderGradFlags = 0 \<rparr> 2 = 255
   \<and> initLinearBitmap binary32_arith 1
        \<lparr> fColorCount = 3,
          fOrigColors4f = [\<lparr>fR = 1, fG = 1/2, fB = 0, fA = 1/2\<rparr>, \<lparr>fR = 0, fG = 0, fB = 0, fA = 1\<rparr>,
                           \<lparr>fR = 0, fG = 0, fB = 0, fA = 1/2\<rparr>],
          fOrigPos = Some [0, 63/64, 1], fColorsAreOpaque = False,
          fShaderTileMode = kClamp_TileMode, fShaderGradFlags = 0 \<rparr>
        [\<lparr>fR = 1, fG = 1/2, fB = 0, fA = 1/2\<rparr>, \<lparr>fR = 0, fG = 0, fB = 0, fA = 1\<rparr>,
         \<lparr>fR = 0, fG = 0, fB = 0, fA = 1/2\<rparr>]
        Map.empty kRGBA_8888_SkColorType 0 = Some (Texel_8888 (Sk4f (1/2) (1/4) 0 (1/2)))
   \<and> initLinearBitmap binary32_arith 1
        \<lparr> fColorCount = 3,
          fOrigColors4f = [\<lparr>fR = 1, fG = 1/2, fB = 0, fA = 1/2\<rparr>, \<lparr>fR = 0, fG = 0, fB = 0, fA = 1\<rparr>,
                           \<lparr>fR = 0, fG = 0, fB = 0, fA = 1/2\<rparr>],
          fOrigPos = Some [0, 63/64, 1], fColorsAreOpaque = False,
          fShaderTileMode = kClamp_TileMode, fShaderGradFlags = 0 \<rparr>
        [\<lparr>fR = 1, fG = 1/2, fB = 0, fA = 1/2\<rparr>, \<lparr>fR = 0, fG = 0, fB = 0, fA = 1\<rparr>,
         \<lparr>fR = 0, fG = 0, fB = 0, fA = 1/2\<rparr>]
        Map.empty kRGBA_8888_SkColorType 255
        = Some (Texel_8888 (Sk4f 0 0 0 (8388607 / 16777216)))"
proof -
  let ?g = "\<lparr> fColorCount = 3,
          fOrigColors4f = [\<lparr>fR = 1, fG = 1/2, fB = 0, fA = 1/2\<rparr>, \<lparr>fR = 0, fG = 0, fB = 0, fA = 1\<rparr>,
                           \<lparr>fR = 0, fG = 0, fB = 0, fA = 1/2\<rparr>],
          fOrigPos = Some [0, 63/64, 1], fColorsAreOpaque = False,
          fShaderTileMode = kClamp_TileMode, fShaderGradFlags = 0 \<rparr>"
  let ?cs = "[\<lparr>fR = 1, fG = 1/2, fB = 0, fA = 1/2\<rparr>, \<lparr>fR = 0, fG = 0, fB = 0, fA = 1\<rparr>,
         \<lparr>fR = 0, fG = 0, fB = 0, fA = 1/2\<rparr>]"
  have i1: "stop_index ?g (Suc 0) = 252"
    by (simp add: stop_index_def getPos_def float_to_int_def kGradientTextureSize_def)
  have h1: "2 \<le> fColorCount ?g" by simp
  have h2: "getPos ?g 0 = 0" by (simp add: getPos_def)
  have h3: "getPos ?g (fColorCount ?g - 1) = 1" by (simp add: getPos_def)
  have h4: "\<forall>i j. i \<le> j \<and> j < fColorCount ?g \<longrightarrow> getPos ?g i \<le> getPos ?g j"
    by (auto simp add: getPos_def less_Suc_eq le_Suc_eq numeral_3_eq_3)
  note T = lookup_table_boundary [OF h1 h2 h3 h4, where ar = binary32_arith
      and premulFlag = 1 and colors = ?cs and colorType = kRGBA_8888_SkColorType]
  have t0: "initLinearBitmap binary32_arith 1 ?g ?cs Map.empty kRGBA_8888_SkColorType 0
              = Some (Texel_8888 (Sk4f (1/2) (1/4) 0 (1/2)))"
    using T by (simp add: i1 Load_def binary32_arith_def round32_values)
  have t255: "initLinearBitmap binary32_arith 1 ?g ?cs Map.empty kRGBA_8888_SkColorType 255
              = Some (Texel_8888 (Sk4f 0 0 0 (8388607 / 16777216)))"
    using T
    by (simp add: i1 Load_def binary32_last_span)
       (simp add: binary32_arith_def round32_values)
  show ?thesis using T t0 t255 h2 by (simp add: i1 getPos_def)
qed

text \<open>
  With red, green and blue at \<open>{0, 0, 1}\<close> the second stop shares texel 0 with the first,
  and texel 0 holds green, not red. With alpha 1 at \<open>63/64\<close> and alpha \<open>1/2\<close> at 1 the last
  span has three texels, and the three additions of \<^verbatim>\<open>float\<close> leave
  \<open>8388607 / 16777216\<close> in texel 255, the value just below \<open>1/2\<close>.
\<close>

theorem lookup_table_hard_stop_counterexample:
  "initLinearBitmap binary32_arith 1
        \<lparr> fColorCount = 3,
          fOrigColors4f = [\<lparr>fR = 1, fG = 0, fB = 0, fA = 1\<rparr>, \<lparr>fR = 0, fG = 1, fB = 0, fA = 1\<rparr>,
                           \<lparr>fR = 0, fG = 0, fB = 1, fA = 1\<rparr>],
          fOrigPos = Some [0, 0, 1], fColorsAreOpaque = True, fShaderTileMode = kClamp_TileMode,
          fShaderGradFlags = 0 \<rparr>
        [\<lparr>fR = 1, fG = 0, fB = 0, fA = 1\<rparr>, \<lparr>fR = 0, fG = 1, fB = 0, fA = 1\<rparr>,
         \<lparr>fR = 0, fG = 0, fB = 1, fA = 1\<rparr>]
        Map.empty kRGBA_8888_SkColorType 0 = Some (Texel_8888 (Sk4f 0 1 0 1))
   \<and> Sk4f 0 1 0 1 \<noteq> Load \<lparr>fR = 1, fG = 0, fB = 0, fA = 1\<rparr>
   \<and> initLinearBitmap binary32_arith 1
        \<lparr> fColorCount = 3,
          fOrigColors4f = [\<lparr>fR = 1, fG = 1/2, fB = 0, fA = 1/2\<rparr>, \<lparr>fR = 0, fG = 0, fB = 0, fA = 1\<rparr>,
                           \<lparr>fR = 0, fG = 0, fB = 0, fA = 1/2\<rparr>],
          fOrigPos = Some [0, 63/64, 1], fColorsAreOpaque = False,
          fShaderTileMode = kClamp_TileMode, fShaderGradFlags = 0 \<rparr>
        [\<lparr>fR = 1, fG = 1/2, fB = 0, fA = 1/2\<rparr>, \<lparr>fR = 0, fG = 0, fB = 0, fA = 1\<rparr>,
         \<lparr>fR = 0, fG = 0, fB = 0, fA = 1/2\<rparr>]
        Map.empty kRGBA_8888_SkColorType 255
        = Some (Texel_8888 (Sk4f 0 0 0 (8388607 / 16777216)))
   \<and> Sk4f 0 0 0 (8388607 / 16777216) \<noteq> Load \<lparr>fR = 0, fG = 0, fB = 0, fA = 1/2\<rparr>"
proof -
  let ?g = "\<lparr> fColorCount = 3,
          fOrigColors4f = [\<lparr>fR = 1, fG = 0, fB = 0, fA = 1\<rparr>, \<lparr>fR = 0, fG = 1, fB = 0, fA = 1\<rparr>,
                           \<lparr>fR = 0, fG = 0, fB = 1, fA = 1\<rparr>],
          fOrigPos = Some [0, 0, 1], fColorsAreOpaque = True, fShaderTileMode = kClamp_TileMode,
          fShaderGradFlags = 0 \<rparr>"
  let ?cs = "[\<lparr>fR = 1, fG = 0, fB = 0, fA = 1\<rparr>, \<lparr>fR = 0, fG = 1, fB = 0, fA = 1\<rparr>,
         \<lparr>fR = 0, fG = 0, fB = 1, fA = 1\<rparr>]"
  have upt: "[Suc 0..<3] = [Suc 0, 2]" by (simp add: upt_rec)
  have i1: "stop_index ?g (Suc 0) = 0"
    by (simp add: stop_index_def getPos_def float_to_int_def kGradientTextureSize_def)
  have i2: "stop_index ?g 2 = 255"
    by (simp add: stop_index_def getPos_def float_to_int_def kGradientTextureSize_def)
  have s1: "bitmap_step binary32_arith False kRGBA_8888_SkColorType ?g ?cs (0, Map.empty) (Suc 0)
              = (0, Map.empty)"
    unfolding bitmap_step_def Let_def fst_conv snd_conv i1 by simp
  have lt: "fst (0 :: int, Map.empty :: SkBitmap) < stop_index ?g 2" unfolding i2 by simp
  have "initLinearBitmap binary32_arith 1 ?g ?cs Map.empty kRGBA_8888_SkColorType 0
          = snd (bitmap_step binary32_arith False kRGBA_8888_SkColorType ?g ?cs (0, Map.empty) 2) 0"
    unfolding initLinearBitmap_def Let_def by (simp add: upt s1)
  also have "\<dots> = Some (Texel_8888 (Sk4f 0 1 0 1))"
    using bitmap_step_first [OF lt, of binary32_arith False kRGBA_8888_SkColorType ?cs]
    by (simp add: Load_def binary32_arith_def round32_values)
  finally show ?thesis by (simp add: Load_def binary32_three_stops_255)
qed

subsection \<open>Table cache\<close>

lemma table_key_cong:
  assumes "fColorCount g1 = fColorCount g2"
    and "\<forall>i < fColorCount g1. colors1 ! i = colors2 ! i"
    and "fOrigPos g1 = fOrigPos g2"
    and "fShaderGradFlags g1 = fShaderGradFlags g2"
  shows "table_key bits typeValue g1 colors1 ct = table_key bits typeValue g2 colors2 ct"
proof -
  have gp: "getPos g1 = getPos g2"
    using assms(1,3) by (auto simp add: getPos_def fun_eq_iff split: option.splits)
  have m: "map (\<lambda>i. [bits (fR (colors1 ! i)), bits (fG (colors1 ! i)),
                    bits (fB (colors1 ! i)), bits (fA (colors1 ! i))]) [0..<fColorCount g2]
      = map (\<lambda>i. [bits (fR (colors2 ! i)), bits (fG (colors2 ! i)),
                    bits (fB (colors2 ! i)), bits (fA (colors2 ! i))]) [0..<fColorCount g2]"
    using assms(1,2) by (intro map_cong) simp_all
  show ?thesis
    unfolding table_key_def gp assms(1) assms(4) m ..
qed

lemma concat_quads_length:
  "length (concat (map (\<lambda>i. [a i, b i, c i, d i]) [0..<n])) = 4 * n"
  by (induction n) simp_all

lemma concat_quads_nth:
  assumes "i < n"
  shows "concat (map (\<lambda>i. [a i, b i, c i, d i]) [0..<n]) ! (4 * i) = a i
       \<and> concat (map (\<lambda>i. [a i, b i, c i, d i]) [0..<n]) ! (4 * i + 1) = b i
       \<and> concat (map (\<lambda>i. [a i, b i, c i, d i]) [0..<n]) ! (4 * i + 2) = c i
       \<and> concat (map (\<lambda>i. [a i, b i, c i, d i]) [0..<n]) ! (4 * i + 3) = d i"
  using assms
proof (induction n)
  case 0
  then show ?case by simp
next
  case (Suc n)
  show ?case
  proof (cases "i < n")
    case True
    with Suc.IH show ?thesis by (simp add: nth_append concat_quads_length)
  next
    case False
    with Suc.prems have "i = n" by simp
    then show ?thesis by (simp add: nth_append concat_quads_length)
  qed
qed

lemma table_key_length:
  "length (table_key bits typeValue g colors ct) =
     1 + 4 * fColorCount g + (if fColorCount g > 2 then fColorCount g - 1 else 0) + 1 + 1"
  by (simp add: table_key_def concat_quads_length)

lemma table_key_count: "table_key bits typeValue g colors ct ! 0 = of_nat (fColorCount g)"
  by (simp add: table_key_def)

lemma table_key_color:
  assumes "i < fColorCount g"
  shows "table_key bits typeValue g colors ct ! (1 + 4 * i) = bits (fR (colors ! i))
       \<and> table_key bits typeValue g colors ct ! (1 + 4 * i + 1) = bits (fG (colors ! i))
       \<and> table_key bits typeValue g colors ct ! (1 + 4 * i + 2) = bits (fB (colors ! i))
       \<and> table_key bits typeValue g colors ct ! (1 + 4 * i + 3) = bits (fA (colors ! i))"
  using assms concat_quads_nth [OF assms, of "\<lambda>i. bits (fR (colors ! i))"
      "\<lambda>i. bits (fG (colors ! i))" "\<lambda>i. bits (fB (colors ! i))" "\<lambda>i. bits (fA (colors ! i))"]
  by (simp add: table_key_def nth_append concat_quads_length add_ac)

lemma table_key_pos:
  assumes "2 < fColorCount g" and "1 \<le> i" and "i < fColorCount g"
  shows "table_key bits typeValue g colors ct ! (4 * fColorCount g + i) = bits (getPos g i)"
proof -
  let ?n = "fColorCount g"
  let ?front = "[of_nat ?n]
     @ concat (map (\<lambda>i. [bits (fR (colors ! i)), bits (fG (colors ! i)),
                          bits (fB (colors ! i)), bits (fA (colors ! i))]) [0..<?n])"
  let ?ps = "map (\<lambda>i. bits (getPos g i)) [1..<?n]"
  let ?rest = "[ucast (fShaderGradFlags g)] @ [typeValue ct]"
  have key: "table_key bits typeValue g colors ct = ?front @ (?ps @ ?rest)"
    using assms(1) by (simp add: table_key_def)
  have len: "length ?front = 1 + 4 * ?n" by (simp add: concat_quads_length)
  have idx: "4 * ?n + i - length ?front = i - 1" unfolding len using assms(2) by simp
  have ge: "\<not> 4 * ?n + i < length ?front" unfolding len using assms(2) by simp
  have lt: "i - 1 < length ?ps" using assms(2,3) by simp
  have "table_key bits typeValue g colors ct ! (4 * ?n + i) = (?ps @ ?rest) ! (i - 1)"
    unfolding key nth_append using ge idx by (simp only: if_False)
  also have "\<dots> = ?ps ! (i - 1)" using lt by (simp only: nth_append if_True)
  also have "\<dots> = bits (getPos g ([1..<?n] ! (i - 1)))" using lt by simp
  also have "[1..<?n] ! (i - 1) = 1 + (i - 1)" by (rule nth_upt) (use assms(2,3) in simp)
  also have "1 + (i - 1) = i" using assms(2) by simp
  finally show ?thesis .
qed

lemma table_key_tail:
  "last (butlast (table_key bits typeValue g colors ct)) = ucast (fShaderGradFlags g)
   \<and> last (table_key bits typeValue g colors ct) = typeValue ct"
proof -
  obtain front where "table_key bits typeValue g colors ct
      = front @ [ucast (fShaderGradFlags g), typeValue ct]"
    by (simp add: table_key_def)
  then show ?thesis by (simp add: butlast_append)
qed

lemma table_key_no_positions:
  "fColorCount g \<le> 2 \<Longrightarrow>
   table_key bits typeValue (g\<lparr> fOrigPos := p \<rparr>) colors ct = table_key bits typeValue g colors ct"
  by (simp add: table_key_def)

lemma cache_add_stored:
  assumes "0 < fMaxEntries cache"
  shows "map_of (fEntries (cache_add key bitmap cache)) key = Some bitmap"
proof -
  have "fEntries cache \<noteq> [] \<Longrightarrow>
        butlast ((key, bitmap) # fEntries cache) = (key, bitmap) # butlast (fEntries cache)"
    by simp
  then show ?thesis
    using assms by (cases "fEntries cache") (simp_all add: cache_add_def Let_def)
qed

lemma cache_find_miss:
  "map_of (fEntries cache) key = None \<Longrightarrow> cache_find key cache = (None, cache)"
  by (simp add: cache_find_def)

lemma cache_find_hit:
  "map_of (fEntries cache) key = Some bm \<Longrightarrow>
   cache_find key cache =
     (Some bm, cache\<lparr> fEntries := (key, bm) # filter (\<lambda>e. fst e \<noteq> key) (fEntries cache) \<rparr>)"
  by (simp add: cache_find_def)

lemma getGradientTableBitmap_miss:
  assumes "map_of (fEntries (case gCache of
                None \<Rightarrow> \<lparr> fMaxEntries = MAX_NUM_CACHED_GRADIENT_BITMAPS, fEntries = [] \<rparr>
              | Some c \<Rightarrow> c)) (table_key bits typeValue g colors ct) = None"
  shows "getGradientTableBitmap ar bits typeValue premulFlag g colors ct gCache =
           (initLinearBitmap ar premulFlag g colors Map.empty ct,
            Some (cache_add (table_key bits typeValue g colors ct)
                    (initLinearBitmap ar premulFlag g colors Map.empty ct)
                    (case gCache of
                       None \<Rightarrow> \<lparr> fMaxEntries = MAX_NUM_CACHED_GRADIENT_BITMAPS, fEntries = [] \<rparr>
                     | Some c \<Rightarrow> c)),
            True)"
  unfolding getGradientTableBitmap_def Let_def cache_find_miss [OF assms] by simp

lemma getGradientTableBitmap_hit:
  assumes "map_of (fEntries (case gCache of
                None \<Rightarrow> \<lparr> fMaxEntries = MAX_NUM_CACHED_GRADIENT_BITMAPS, fEntries = [] \<rparr>
              | Some c \<Rightarrow> c)) (table_key bits typeValue g colors ct) = Some bm"
  shows "getGradientTableBitmap ar bits typeValue premulFlag g colors ct gCache =
           (bm,
            Some ((case gCache of
                     None \<Rightarrow> \<lparr> fMaxEntries = MAX_NUM_CACHED_GRADIENT_BITMAPS, fEntries = [] \<rparr>
                   | Some c \<Rightarrow> c)
                  \<lparr> fEntries := (table_key bits typeValue g colors ct, bm)
                       # filter (\<lambda>e. fst e \<noteq> table_key bits typeValue g colors ct)
                           (fEntries (case gCache of
                              None \<Rightarrow> \<lparr> fMaxEntries = MAX_NUM_CACHED_GRADIENT_BITMAPS,
                                        fEntries = [] \<rparr>
                            | Some c \<Rightarrow> c)) \<rparr>),
            False)"
  unfolding getGradientTableBitmap_def Let_def cache_find_hit [OF assms] by simp

lemma getGradientTableBitmap_stored:
  assumes wf: "\<forall>c. gCache = Some c \<longrightarrow> 0 < fMaxEntries c"
  shows "\<exists>c1. fst (snd (getGradientTableBitmap ar bits typeValue premulFlag g colors ct gCache))
                 = Some c1
             \<and> map_of (fEntries c1) (table_key bits typeValue g colors ct)
                 = Some (fst (getGradientTableBitmap ar bits typeValue premulFlag g colors ct
                               gCache))"
proof -
  let ?key = "table_key bits typeValue g colors ct"
  let ?cache = "case gCache of
                  None \<Rightarrow> \<lparr> fMaxEntries = MAX_NUM_CACHED_GRADIENT_BITMAPS, fEntries = [] \<rparr>
                | Some c \<Rightarrow> c"
  have mx: "0 < fMaxEntries ?cache"
    using wf by (cases gCache) (simp_all add: MAX_NUM_CACHED_GRADIENT_BITMAPS_def)
  show ?thesis
  proof (cases "map_of (fEntries ?cache) ?key")
    case None
    show ?thesis
      unfolding getGradientTableBitmap_miss [OF None] using cache_add_stored [OF mx] by simp
  next
    case (Some bm)
    show ?thesis unfolding getGradientTableBitmap_hit [OF Some] by simp
  qed
qed

lemma getGradientTableBitmap_again:
  assumes wf: "\<forall>c. gCache = Some c \<longrightarrow> 0 < fMaxEntries c"
    and key: "table_key bits typeValue g2 colors2 ct2 = table_key bits typeValue g1 colors1 ct1"
  shows "\<exists>gCache2.
           getGradientTableBitmap ar bits typeValue premulFlag g2 colors2 ct2
             (fst (snd (getGradientTableBitmap ar bits typeValue premulFlag g1 colors1 ct1 gCache)))
           = (fst (getGradientTableBitmap ar bits typeValue premulFlag g1 colors1 ct1 gCache),
              gCache2, False)"
proof -
  let ?r1 = "getGradientTableBitmap ar bits typeValue premulFlag g1 colors1 ct1 gCache"
  from getGradientTableBitmap_stored [OF wf, of ar bits typeValue premulFlag g1 colors1 ct1]
  obtain c1 where c1: "fst (snd ?r1) = Some c1"
    and st: "map_of (fEntries c1) (table_key bits typeValue g1 colors1 ct1) = Some (fst ?r1)"
    by blast
  have "map_of (fEntries (case Some c1 of
                None \<Rightarrow> \<lparr> fMaxEntries = MAX_NUM_CACHED_GRADIENT_BITMAPS, fEntries = [] \<rparr>
              | Some c \<Rightarrow> c)) (table_key bits typeValue g2 colors2 ct2) = Some (fst ?r1)"
    using st key by simp
  from getGradientTableBitmap_hit [OF this, of ar premulFlag]
  show ?thesis unfolding c1 by blast
qed

text \<open>
  C9. Two gradients with the same colour count, the same colours handed in, the same position
  array and the same flags get the same key for the same colour type, whatever else differs.
  The key holds the count, then the four floats of each colour, then the positions of the
  stops 1 to \<open>n - 1\<close> when \<open>n > 2\<close> and nothing of the position array otherwise, then the
  flags and the colour type. A call of \<^verbatim>\<open>getGradientTableBitmap\<close> that does not find the key
  runs \<^verbatim>\<open>initLinearBitmap\<close>, hands its table back and stores it under the key; a call that
  finds the key hands back the table found and does not run \<^verbatim>\<open>initLinearBitmap\<close>. After
  either, the table handed back is in the cache under the key, and a second call with an
  equal key returns that table without building one.
\<close>

theorem cache_key_deterministic:
  fixes g1 g2 :: GradientShaderBase and colors1 colors2 :: "SkColor4f list"
    and bits :: "real \<Rightarrow> 32 word" and typeValue :: "SkColorType \<Rightarrow> 32 word"
    and ct :: SkColorType and ar :: float_arith and premulFlag :: "8 word"
    and gCache :: "SkGradientBitmapCache option"
  assumes "fColorCount g1 = fColorCount g2"
    and "\<forall>i < fColorCount g1. colors1 ! i = colors2 ! i"
    and "fOrigPos g1 = fOrigPos g2"
    and "fShaderGradFlags g1 = fShaderGradFlags g2"
    and "\<forall>c. gCache = Some c \<longrightarrow> 0 < fMaxEntries c"
  defines "n \<equiv> fColorCount g1"
    and "key \<equiv> table_key bits typeValue g1 colors1 ct"
    and "table \<equiv> initLinearBitmap ar premulFlag g1 colors1 Map.empty ct"
    and "cache \<equiv> case gCache of
                    None \<Rightarrow> \<lparr> fMaxEntries = MAX_NUM_CACHED_GRADIENT_BITMAPS, fEntries = [] \<rparr>
                  | Some c \<Rightarrow> c"
    and "first \<equiv> getGradientTableBitmap ar bits typeValue premulFlag g1 colors1 ct gCache"
  shows "table_key bits typeValue g2 colors2 ct = key
     \<and> length key = 1 + 4 * n + (if n > 2 then n - 1 else 0) + 1 + 1
     \<and> key ! 0 = of_nat n
     \<and> (\<forall>i < n. key ! (1 + 4 * i) = bits (fR (colors1 ! i))
                \<and> key ! (1 + 4 * i + 1) = bits (fG (colors1 ! i))
                \<and> key ! (1 + 4 * i + 2) = bits (fB (colors1 ! i))
                \<and> key ! (1 + 4 * i + 3) = bits (fA (colors1 ! i)))
     \<and> (2 < n \<longrightarrow> (\<forall>i. 1 \<le> i \<and> i < n \<longrightarrow> key ! (4 * n + i) = bits (getPos g1 i)))
     \<and> (n \<le> 2 \<longrightarrow>
          (\<forall>p. table_key bits typeValue (g1\<lparr> fOrigPos := p \<rparr>) colors1 ct = key))
     \<and> last (butlast key) = ucast (fShaderGradFlags g1)
     \<and> last key = typeValue ct
     \<and> (map_of (fEntries cache) key = None \<longrightarrow>
          first = (table, Some (cache_add key table cache), True))
     \<and> (\<forall>bm. map_of (fEntries cache) key = Some bm \<longrightarrow>
          fst first = bm \<and> \<not> snd (snd first))
     \<and> (\<exists>c1. fst (snd first) = Some c1 \<and> map_of (fEntries c1) key = Some (fst first))
     \<and> (\<exists>gCache2.
          getGradientTableBitmap ar bits typeValue premulFlag g2 colors2 ct (fst (snd first))
            = (fst first, gCache2, False))"
proof -
  have k: "table_key bits typeValue g2 colors2 ct = key"
    unfolding key_def by (rule table_key_cong [OF assms(1-4), symmetric])
  have len: "length key = 1 + 4 * n + (if n > 2 then n - 1 else 0) + 1 + 1"
    unfolding key_def n_def by (rule table_key_length)
  have cnt: "key ! 0 = of_nat n" unfolding key_def n_def by (rule table_key_count)
  have col: "\<forall>i < n. key ! (1 + 4 * i) = bits (fR (colors1 ! i))
                \<and> key ! (1 + 4 * i + 1) = bits (fG (colors1 ! i))
                \<and> key ! (1 + 4 * i + 2) = bits (fB (colors1 ! i))
                \<and> key ! (1 + 4 * i + 3) = bits (fA (colors1 ! i))"
    unfolding key_def n_def using table_key_color by blast
  have pos: "2 < n \<longrightarrow> (\<forall>i. 1 \<le> i \<and> i < n \<longrightarrow> key ! (4 * n + i) = bits (getPos g1 i))"
    unfolding key_def n_def using table_key_pos by blast
  have nopos: "n \<le> 2 \<longrightarrow>
          (\<forall>p. table_key bits typeValue (g1\<lparr> fOrigPos := p \<rparr>) colors1 ct = key)"
    unfolding key_def n_def using table_key_no_positions by blast
  have tl: "last (butlast key) = ucast (fShaderGradFlags g1) \<and> last key = typeValue ct"
    unfolding key_def by (rule table_key_tail)
  have miss: "map_of (fEntries cache) key = None \<longrightarrow>
          first = (table, Some (cache_add key table cache), True)"
    unfolding key_def cache_def first_def table_def
    using getGradientTableBitmap_miss by blast
  have hit: "\<forall>bm. map_of (fEntries cache) key = Some bm \<longrightarrow>
          fst first = bm \<and> \<not> snd (snd first)"
    unfolding key_def cache_def first_def
    using getGradientTableBitmap_hit [of gCache bits typeValue g1 colors1 ct _ ar premulFlag]
    by simp
  have stored: "\<exists>c1. fst (snd first) = Some c1 \<and> map_of (fEntries c1) key = Some (fst first)"
    unfolding key_def first_def by (rule getGradientTableBitmap_stored [OF assms(5)])
  have again: "\<exists>gCache2.
          getGradientTableBitmap ar bits typeValue premulFlag g2 colors2 ct (fst (snd first))
            = (fst first, gCache2, False)"
    unfolding first_def
    by (rule getGradientTableBitmap_again [OF assms(5) k [unfolded key_def]])
  from k len cnt col pos nopos tl miss hit stored again show ?thesis by blast
qed


theorem cache_key_deterministic_witness:
  "table_key (\<lambda>x. word_of_int \<lfloor>x * 64\<rfloor>) (\<lambda>t. if t = kRGBA_F16_SkColorType then 9 else 4)
      \<lparr> fColorCount = 3,
        fOrigColors4f = [\<lparr>fR = 1, fG = 0, fB = 0, fA = 1\<rparr>, \<lparr>fR = 0, fG = 1, fB = 0, fA = 1/2\<rparr>,
                         \<lparr>fR = 0, fG = 0, fB = 1, fA = 1\<rparr>],
        fOrigPos = Some [0, 1/4, 1], fColorsAreOpaque = False,
        fShaderTileMode = kClamp_TileMode, fShaderGradFlags = 1 \<rparr>
      [\<lparr>fR = 1, fG = 0, fB = 0, fA = 1\<rparr>, \<lparr>fR = 0, fG = 1, fB = 0, fA = 1/2\<rparr>,
       \<lparr>fR = 0, fG = 0, fB = 1, fA = 1\<rparr>] kRGBA_8888_SkColorType
     = [3, 64, 0, 0, 64, 0, 64, 0, 32, 0, 0, 64, 64, 16, 64, 1, 4]
   \<and> table_key (\<lambda>x. word_of_int \<lfloor>x * 64\<rfloor>) (\<lambda>t. if t = kRGBA_F16_SkColorType then 9 else 4)
      \<lparr> fColorCount = 3,
        fOrigColors4f = [\<lparr>fR = 1, fG = 0, fB = 0, fA = 1\<rparr>, \<lparr>fR = 0, fG = 1, fB = 0, fA = 1/2\<rparr>,
                         \<lparr>fR = 0, fG = 0, fB = 1, fA = 1\<rparr>],
        fOrigPos = Some [0, 1/4, 1], fColorsAreOpaque = False,
        fShaderTileMode = kRepeat_TileMode, fShaderGradFlags = 1 \<rparr>
      [\<lparr>fR = 1, fG = 0, fB = 0, fA = 1\<rparr>, \<lparr>fR = 0, fG = 1, fB = 0, fA = 1/2\<rparr>,
       \<lparr>fR = 0, fG = 0, fB = 1, fA = 1\<rparr>] kRGBA_8888_SkColorType
     = [3, 64, 0, 0, 64, 0, 64, 0, 32, 0, 0, 64, 64, 16, 64, 1, 4]
   \<and> getGradientTableBitmap binary32_arith (\<lambda>x. word_of_int \<lfloor>x * 64\<rfloor>) (\<lambda>t. if t = kRGBA_F16_SkColorType then 9 else 4) 1
      \<lparr> fColorCount = 3,
        fOrigColors4f = [\<lparr>fR = 1, fG = 0, fB = 0, fA = 1\<rparr>, \<lparr>fR = 0, fG = 1, fB = 0, fA = 1/2\<rparr>,
                         \<lparr>fR = 0, fG = 0, fB = 1, fA = 1\<rparr>],
        fOrigPos = Some [0, 1/4, 1], fColorsAreOpaque = False,
        fShaderTileMode = kClamp_TileMode, fShaderGradFlags = 1 \<rparr>
      [\<lparr>fR = 1, fG = 0, fB = 0, fA = 1\<rparr>, \<lparr>fR = 0, fG = 1, fB = 0, fA = 1/2\<rparr>,
       \<lparr>fR = 0, fG = 0, fB = 1, fA = 1\<rparr>] kRGBA_8888_SkColorType None
     = ((initLinearBitmap binary32_arith 1
      \<lparr> fColorCount = 3,
          fOrigColors4f = [\<lparr>fR = 1, fG = 0, fB = 0, fA = 1\<rparr>, \<lparr>fR = 0, fG = 1, fB = 0, fA = 1/2\<rparr>,
                           \<lparr>fR = 0, fG = 0, fB = 1, fA = 1\<rparr>],
          fOrigPos = Some [0, 1/4, 1], fColorsAreOpaque = False,
          fShaderTileMode = kClamp_TileMode, fShaderGradFlags = 1 \<rparr>
      [\<lparr>fR = 1, fG = 0, fB = 0, fA = 1\<rparr>, \<lparr>fR = 0, fG = 1, fB = 0, fA = 1/2\<rparr>,
       \<lparr>fR = 0, fG = 0, fB = 1, fA = 1\<rparr>]
      Map.empty kRGBA_8888_SkColorType),
        Some \<lparr> fMaxEntries = 32, fEntries = [([3, 64, 0, 0, 64, 0, 64, 0, 32, 0, 0, 64, 64, 16, 64, 1, 4],
      (initLinearBitmap binary32_arith 1
      \<lparr> fColorCount = 3,
          fOrigColors4f = [\<lparr>fR = 1, fG = 0, fB = 0, fA = 1\<rparr>, \<lparr>fR = 0, fG = 1, fB = 0, fA = 1/2\<rparr>,
                           \<lparr>fR = 0, fG = 0, fB = 1, fA = 1\<rparr>],
          fOrigPos = Some [0, 1/4, 1], fColorsAreOpaque = False,
          fShaderTileMode = kClamp_TileMode, fShaderGradFlags = 1 \<rparr>
      [\<lparr>fR = 1, fG = 0, fB = 0, fA = 1\<rparr>, \<lparr>fR = 0, fG = 1, fB = 0, fA = 1/2\<rparr>,
       \<lparr>fR = 0, fG = 0, fB = 1, fA = 1\<rparr>]
      Map.empty kRGBA_8888_SkColorType))] \<rparr>,
        True)
   \<and> getGradientTableBitmap binary32_arith (\<lambda>x. word_of_int \<lfloor>x * 64\<rfloor>) (\<lambda>t. if t = kRGBA_F16_SkColorType then 9 else 4) 1
      \<lparr> fColorCount = 3,
        fOrigColors4f = [\<lparr>fR = 1, fG = 0, fB = 0, fA = 1\<rparr>, \<lparr>fR = 0, fG = 1, fB = 0, fA = 1/2\<rparr>,
                         \<lparr>fR = 0, fG = 0, fB = 1, fA = 1\<rparr>],
        fOrigPos = Some [0, 1/4, 1], fColorsAreOpaque = False,
        fShaderTileMode = kRepeat_TileMode, fShaderGradFlags = 1 \<rparr>
      [\<lparr>fR = 1, fG = 0, fB = 0, fA = 1\<rparr>, \<lparr>fR = 0, fG = 1, fB = 0, fA = 1/2\<rparr>,
       \<lparr>fR = 0, fG = 0, fB = 1, fA = 1\<rparr>] kRGBA_8888_SkColorType
      (Some \<lparr> fMaxEntries = 32, fEntries = [([3, 64, 0, 0, 64, 0, 64, 0, 32, 0, 0, 64, 64, 16, 64, 1, 4],
      (initLinearBitmap binary32_arith 1
      \<lparr> fColorCount = 3,
          fOrigColors4f = [\<lparr>fR = 1, fG = 0, fB = 0, fA = 1\<rparr>, \<lparr>fR = 0, fG = 1, fB = 0, fA = 1/2\<rparr>,
                           \<lparr>fR = 0, fG = 0, fB = 1, fA = 1\<rparr>],
          fOrigPos = Some [0, 1/4, 1], fColorsAreOpaque = False,
          fShaderTileMode = kClamp_TileMode, fShaderGradFlags = 1 \<rparr>
      [\<lparr>fR = 1, fG = 0, fB = 0, fA = 1\<rparr>, \<lparr>fR = 0, fG = 1, fB = 0, fA = 1/2\<rparr>,
       \<lparr>fR = 0, fG = 0, fB = 1, fA = 1\<rparr>]
      Map.empty kRGBA_8888_SkColorType))] \<rparr>)
     = ((initLinearBitmap binary32_arith 1
      \<lparr> fColorCount = 3,
          fOrigColors4f = [\<lparr>fR = 1, fG = 0, fB = 0, fA = 1\<rparr>, \<lparr>fR = 0, fG = 1, fB = 0, fA = 1/2\<rparr>,
                           \<lparr>fR = 0, fG = 0, fB = 1, fA = 1\<rparr>],
          fOrigPos = Some [0, 1/4, 1], fColorsAreOpaque = False,
          fShaderTileMode = kClamp_TileMode, fShaderGradFlags = 1 \<rparr>
      [\<lparr>fR = 1, fG = 0, fB = 0, fA = 1\<rparr>, \<lparr>fR = 0, fG = 1, fB = 0, fA = 1/2\<rparr>,
       \<lparr>fR = 0, fG = 0, fB = 1, fA = 1\<rparr>]
      Map.empty kRGBA_8888_SkColorType),
        Some \<lparr> fMaxEntries = 32, fEntries = [([3, 64, 0, 0, 64, 0, 64, 0, 32, 0, 0, 64, 64, 16, 64, 1, 4],
      (initLinearBitmap binary32_arith 1
      \<lparr> fColorCount = 3,
          fOrigColors4f = [\<lparr>fR = 1, fG = 0, fB = 0, fA = 1\<rparr>, \<lparr>fR = 0, fG = 1, fB = 0, fA = 1/2\<rparr>,
                           \<lparr>fR = 0, fG = 0, fB = 1, fA = 1\<rparr>],
          fOrigPos = Some [0, 1/4, 1], fColorsAreOpaque = False,
          fShaderTileMode = kClamp_TileMode, fShaderGradFlags = 1 \<rparr>
      [\<lparr>fR = 1, fG = 0, fB = 0, fA = 1\<rparr>, \<lparr>fR = 0, fG = 1, fB = 0, fA = 1/2\<rparr>,
       \<lparr>fR = 0, fG = 0, fB = 1, fA = 1\<rparr>]
      Map.empty kRGBA_8888_SkColorType))] \<rparr>,
        False)"
proof -
  let ?g1 = "\<lparr> fColorCount = 3,
        fOrigColors4f = [\<lparr>fR = 1, fG = 0, fB = 0, fA = 1\<rparr>, \<lparr>fR = 0, fG = 1, fB = 0, fA = 1/2\<rparr>,
                         \<lparr>fR = 0, fG = 0, fB = 1, fA = 1\<rparr>],
        fOrigPos = Some [0, 1/4, 1], fColorsAreOpaque = False,
        fShaderTileMode = kClamp_TileMode, fShaderGradFlags = 1 \<rparr>"
  let ?g2 = "\<lparr> fColorCount = 3,
        fOrigColors4f = [\<lparr>fR = 1, fG = 0, fB = 0, fA = 1\<rparr>, \<lparr>fR = 0, fG = 1, fB = 0, fA = 1/2\<rparr>,
                         \<lparr>fR = 0, fG = 0, fB = 1, fA = 1\<rparr>],
        fOrigPos = Some [0, 1/4, 1], fColorsAreOpaque = False,
        fShaderTileMode = kRepeat_TileMode, fShaderGradFlags = 1 \<rparr>"
  let ?cs = "[\<lparr>fR = 1, fG = 0, fB = 0, fA = 1\<rparr>, \<lparr>fR = 0, fG = 1, fB = 0, fA = 1/2\<rparr>,
       \<lparr>fR = 0, fG = 0, fB = 1, fA = 1\<rparr>]"
  let ?bits = "(\<lambda>x. word_of_int \<lfloor>x * 64\<rfloor>) :: real \<Rightarrow> 32 word"
  let ?tv = "(\<lambda>t. if t = kRGBA_F16_SkColorType then 9 else 4) :: SkColorType \<Rightarrow> 32 word"
  let ?table = "initLinearBitmap binary32_arith 1 ?g1 ?cs Map.empty kRGBA_8888_SkColorType"
  let ?c1 = "\<lparr> fMaxEntries = 32, fEntries = [([3, 64, 0, 0, 64, 0, 64, 0, 32, 0, 0, 64, 64, 16, 64, 1, 4] :: 32 word list, ?table)] \<rparr>"
  have u3: "[0..<3] = [0, Suc 0, 2]" and u13: "[Suc 0..<3] = [Suc 0, 2]"
    by (simp_all add: upt_rec)
  have k1: "table_key ?bits ?tv ?g1 ?cs kRGBA_8888_SkColorType = [3, 64, 0, 0, 64, 0, 64, 0, 32, 0, 0, 64, 64, 16, 64, 1, 4]"
    by (simp add: table_key_def getPos_def u3 u13)
  have k2: "table_key ?bits ?tv ?g2 ?cs kRGBA_8888_SkColorType = [3, 64, 0, 0, 64, 0, 64, 0, 32, 0, 0, 64, 64, 16, 64, 1, 4]"
    by (simp add: table_key_def getPos_def u3 u13)
  note T1 = cache_key_deterministic [where ?g1.0 = ?g1 and ?g2.0 = ?g2 and ?colors1.0 = ?cs
      and ?colors2.0 = ?cs and bits = ?bits and typeValue = ?tv
      and ct = kRGBA_8888_SkColorType and ar = binary32_arith and premulFlag = 1
      and gCache = None]
  note T2 = cache_key_deterministic [where ?g1.0 = ?g2 and ?g2.0 = ?g1 and ?colors1.0 = ?cs
      and ?colors2.0 = ?cs and bits = ?bits and typeValue = ?tv
      and ct = kRGBA_8888_SkColorType and ar = binary32_arith and premulFlag = 1
      and gCache = "Some ?c1"]
  have r1: "getGradientTableBitmap binary32_arith ?bits ?tv 1 ?g1 ?cs kRGBA_8888_SkColorType None
              = (?table, Some ?c1, True)"
    using T1 unfolding k1 k2
    by (simp add: cache_add_def MAX_NUM_CACHED_GRADIENT_BITMAPS_def)
  have r2: "getGradientTableBitmap binary32_arith ?bits ?tv 1 ?g2 ?cs kRGBA_8888_SkColorType
              (Some ?c1) = (?table, Some ?c1, False)"
    using T2 unfolding k1 k2
    by (simp add: getGradientTableBitmap_def cache_find_def k2)
  from k1 k2 r1 r2 show ?thesis by simp
qed

subsection \<open>Opacity\<close>

lemma foldl_opaque:
  "foldl (\<lambda>opaque i. opaque \<and> P i) b xs = (b \<and> (\<forall>i \<in> set xs. P i))"
  by (induction xs arbitrary: b) auto

text \<open>
  C10. \<^verbatim>\<open>isOpaque()\<close> of a constructed gradient is true exactly when the alpha of every
  colour of the descriptor is 1 and the tile mode is not Decal.
\<close>

theorem isOpaque_iff:
  "isOpaque (SkGradientShaderBase_ctor tol desc) =
     ((\<forall>i < fCount desc. fA (fColors desc ! i) = 1) \<and> fTileMode desc \<noteq> kDecal_TileMode)"
  by (auto simp add: isOpaque_def SkGradientShaderBase_ctor_def foldl_opaque)

theorem isOpaque_iff_witness:
  "isOpaque (SkGradientShaderBase_ctor (1 / 4096)
      \<lparr> fColors = [\<lparr>fR = 1, fG = 0, fB = 0, fA = 1\<rparr>, \<lparr>fR = 0, fG = 0, fB = 1, fA = 1\<rparr>],
        fPos = None, fCount = 2, fTileMode = kClamp_TileMode, fGradFlags = 0 \<rparr>)
   \<and> \<not> isOpaque (SkGradientShaderBase_ctor (1 / 4096)
      \<lparr> fColors = [\<lparr>fR = 1, fG = 0, fB = 0, fA = 1\<rparr>, \<lparr>fR = 0, fG = 0, fB = 1, fA = 1\<rparr>],
        fPos = None, fCount = 2, fTileMode = kDecal_TileMode, fGradFlags = 0 \<rparr>)"
  by (simp add: isOpaque_iff less_Suc_eq numeral_2_eq_2)

end
